theory Spec2Isabelle
  imports Complex_Main
begin

section \<open>Python values and exceptions\<close>

text \<open>
  The arguments of \<^verbatim>\<open>generate\<close> (do_populate.py) are dynamically typed. The values the
  checks of the function distinguish are modelled by one datatype. Python floats are
  idealised as reals: rounding, infinities and NaN are outside the model. Tuples, dicts and
  user-defined classes are outside the model as well.
\<close>

datatype pyval =
    PNone
  | PBool bool
  | PInt int
  | PFloat real
  | PStr string
  | PList "pyval list"

text \<open>
  The exceptions that can leave \<^verbatim>\<open>generate\<close>: its own \<^verbatim>\<open>ValueError\<close>s, the
  \<^verbatim>\<open>TypeError\<close> and \<^verbatim>\<open>IndexError\<close> of the built-in operations it uses, and the
  two failures the specification names for the delegated components.
\<close>

datatype error =
    ValueError string
  | TypeError string
  | IndexError string
  | DomainError string
  | OutOfRangeError string

text \<open>The result of \<^verbatim>\<open>x ** (1/3)\<close> on a float: a float, or a complex number when the
  base is negative.\<close>

datatype pynum = Flt real | Cpx complex

subsection \<open>Built-in operations\<close>

text \<open>\<^verbatim>\<open>type(v).__name__\<close>\<close>

fun type_name :: "pyval \<Rightarrow> string" where
  "type_name PNone = ''NoneType''"
| "type_name (PBool _) = ''bool''"
| "type_name (PInt _) = ''int''"
| "type_name (PFloat _) = ''float''"
| "type_name (PStr _) = ''str''"
| "type_name (PList _) = ''list''"

text \<open>A name between apostrophes, as the messages of the built-in exceptions print it.\<close>

definition quoted :: "string \<Rightarrow> string" where
  "quoted s = CHR 0x27 # s @ [CHR 0x27]"

text \<open>\<^verbatim>\<open>isinstance(v, (float, int))\<close>: \<^verbatim>\<open>bool\<close> is a subclass of \<^verbatim>\<open>int\<close>.\<close>

fun isinstance_float_int :: "pyval \<Rightarrow> bool" where
  "isinstance_float_int (PBool _) = True"
| "isinstance_float_int (PInt _) = True"
| "isinstance_float_int (PFloat _) = True"
| "isinstance_float_int _ = False"

text \<open>\<^verbatim>\<open>for par in v\<close>: the elements a value yields when iterated; a string yields
  its characters as one-character strings, a value that is not iterable raises.\<close>

fun iterate :: "pyval \<Rightarrow> error + pyval list" where
  "iterate (PList xs) = Inr xs"
| "iterate (PStr s) = Inr (map (\<lambda>c. PStr [c]) s)"
| "iterate v = Inl (TypeError (quoted (type_name v) @ '' object is not iterable''))"

text \<open>\<^verbatim>\<open>len(v)\<close>\<close>

fun len :: "pyval \<Rightarrow> error + nat" where
  "len (PList xs) = Inr (length xs)"
| "len (PStr s) = Inr (length s)"
| "len v = Inl (TypeError (''object of type '' @ quoted (type_name v) @ '' has no len()''))"

text \<open>\<^verbatim>\<open>v[i]\<close> for a literal index \<open>i \<ge> 0\<close>\<close>

fun getitem :: "pyval \<Rightarrow> nat \<Rightarrow> error + pyval" where
  "getitem (PList xs) i =
     (if i < length xs then Inr (xs ! i) else Inl (IndexError ''list index out of range''))"
| "getitem (PStr s) i =
     (if i < length s then Inr (PStr [s ! i]) else Inl (IndexError ''string index out of range''))"
| "getitem v i = Inl (TypeError (quoted (type_name v) @ '' object is not subscriptable''))"

text \<open>\<^verbatim>\<open>not v\<close>: the values whose truth value is false.\<close>

fun falsy :: "pyval \<Rightarrow> bool" where
  "falsy PNone = True"
| "falsy (PBool b) = (\<not> b)"
| "falsy (PInt i) = (i = 0)"
| "falsy (PFloat r) = (r = 0)"
| "falsy (PStr s) = (s = [])"
| "falsy (PList xs) = (xs = [])"

text \<open>The numeric value of a number (\<^verbatim>\<open>True\<close> is 1, \<^verbatim>\<open>False\<close> is 0), as the
  comparison operators read it.\<close>

fun num_val :: "pyval \<Rightarrow> real" where
  "num_val (PBool b) = (if b then 1 else 0)"
| "num_val (PInt i) = real_of_int i"
| "num_val (PFloat r) = r"
| "num_val _ = 0"

text \<open>\<^verbatim>\<open>math.degrees(x)\<close>\<close>

definition degrees :: "real \<Rightarrow> real" where
  "degrees x = x * (180 / pi)"

text \<open>\<^verbatim>\<open>math.asin(x)\<close>, which raises outside \<open>[-1, 1]\<close>.\<close>

definition math_asin :: "real \<Rightarrow> error + real" where
  "math_asin x =
     (if x < - 1 \<or> 1 < x then Inl (ValueError ''math domain error'') else Inr (arcsin x))"

text \<open>
  \<^verbatim>\<open>x ** (1/3)\<close> for a float \<open>x\<close> in Python 3, where \<^verbatim>\<open>1/3\<close> is a true
  division: the real power for \<open>x \<ge> 0\<close>; for a
  negative base the interpreter switches to complex arithmetic and returns the principal
  value \<open>|x|^(1/3) * (cos (pi/3) + i sin (pi/3))\<close>.
\<close>

definition pow_third :: "real \<Rightarrow> pynum" where
  "pow_third x =
     (if x < 0
      then Cpx (Complex ((- x) powr (1/3) * cos (pi * (1/3))) ((- x) powr (1/3) * sin (pi * (1/3))))
      else Flt (x powr (1/3)))"

section \<open>The arguments of generate\<close>

record config =
  n_gen :: pyval
  cosmology :: pyval
  cosmo_pars :: pyval
  electron_model :: pyval
  emission_pars :: pyval
  lum_dist_pars :: pyval
  name :: pyval
  pulse :: pyval
  si_pars :: pyval
  z_max :: pyval

text \<open>The defaults of the signature, for a given \<^verbatim>\<open>n_gen\<close>.\<close>

definition default_config :: "pyval \<Rightarrow> config" where
  "default_config n =
     \<lparr> n_gen = n,
       cosmology = PBool True,
       cosmo_pars = PList [PFloat 69.6, PFloat 0.286, PFloat 0.714],
       electron_model = PStr ''ne2001'',
       emission_pars = PList [PFloat (10 * 10 ^ 6), PFloat (10 * 10 ^ 9)],
       lum_dist_pars = PList [PFloat (10 ^ 40), PFloat (10 ^ 50), PInt 1],
       name = PNone,
       pulse = PList [PFloat 0.1, PInt 5],
       si_pars = PList [PInt 1, PInt 1],
       z_max = PFloat 2.5 \<rparr>"

section \<open>The population and its sources\<close>

text \<open>
  The classes \<^verbatim>\<open>Source\<close> (source.py) and \<^verbatim>\<open>Population\<close> (population.py) are used
  by \<^verbatim>\<open>generate\<close> as plain attribute holders. A source carries the attributes the loop
  assigns (lines 161-191); a population carries the attributes of lines 128-145 and the run state
  \<^verbatim>\<open>n_srcs\<close>, \<^verbatim>\<open>sources\<close>.
\<close>

record source =
  src_gb :: real
  src_gl :: real
  src_dist :: pynum
  src_z :: real
  src_gx :: real
  src_gy :: real
  src_gz :: real
  src_dm_mw :: real
  src_dm_igm :: real
  src_dm_host :: real
  src_dm :: real
  src_w_int :: real
  src_lum_bol :: real
  src_si :: real

record population =
  pop_name :: pyval
  pop_n_gen :: int
  pop_electron_model :: pyval
  pop_cosmology :: pyval
  pop_H_0 :: pyval
  pop_W_m :: pyval
  pop_W_v :: pyval
  pop_z_max :: pyval
  pop_v_max :: real
  pop_lum_min :: pyval
  pop_lum_max :: pyval
  pop_lum_pow :: pyval
  pop_w_min :: pyval
  pop_w_max :: pyval
  pop_f_min :: pyval
  pop_f_max :: pyval
  pop_si_mean :: pyval
  pop_si_sigma :: pyval
  pop_n_srcs :: int
  pop_sources :: "source list"

section \<open>The collaborators of generate\<close>

text \<open>
  The modules \<^verbatim>\<open>galacticops\<close>, \<^verbatim>\<open>distributions\<close>, \<^verbatim>\<open>population\<close> and the
  random number generator are not part of the verified file. Every function \<^verbatim>\<open>generate\<close>
  calls in them is a parameter, with exactly the arguments the call passes. A call may read
  and change hidden state (the state of the random number generator, caches, counters), of
  type \<open>'w\<close>, and may raise; the state it leaves is kept when it raises.
  \<^verbatim>\<open>Population_n_srcs\<close> and \<^verbatim>\<open>Population_sources\<close> are the values of
  \<^verbatim>\<open>n_srcs\<close> and \<^verbatim>\<open>sources\<close> in a freshly constructed \<^verbatim>\<open>Population()\<close>.
  \<^verbatim>\<open>str_builtin\<close> is the built-in \<^verbatim>\<open>str()\<close> on values that are not strings.
\<close>

record 'w env =
  Population_n_srcs :: int
  Population_sources :: "source list"
  str_builtin :: "pyval \<Rightarrow> string"
  random_random :: "'w \<Rightarrow> real \<times> 'w"
  z_to_v :: "pyval \<Rightarrow> 'w \<Rightarrow> (error + real) \<times> 'w"
  dist_lookup :: "pyval \<Rightarrow> pyval \<Rightarrow> pyval \<Rightarrow> pyval \<Rightarrow> pyval \<Rightarrow> 'w
                    \<Rightarrow> (error + real list \<times> real list) \<times> 'w"
  interpolate_z :: "pynum \<Rightarrow> real list \<Rightarrow> real list \<Rightarrow> pyval \<Rightarrow> 'w \<Rightarrow> (error + real) \<times> 'w"
  lb_to_xyz :: "real \<Rightarrow> real \<Rightarrow> pynum \<Rightarrow> 'w \<Rightarrow> (error + real \<times> real \<times> real) \<times> 'w"
  ne2001_dist_to_dm :: "pynum \<Rightarrow> real \<Rightarrow> real \<Rightarrow> 'w \<Rightarrow> (error + real) \<times> 'w"
  ioka_dm_igm :: "real \<Rightarrow> 'w \<Rightarrow> (error + real) \<times> 'w"
  redshift_pulse :: "real \<Rightarrow> pyval \<Rightarrow> pyval \<Rightarrow> 'w \<Rightarrow> (error + real) \<times> 'w"
  powerlaw :: "pyval \<Rightarrow> pyval \<Rightarrow> pyval \<Rightarrow> 'w \<Rightarrow> (error + real) \<times> 'w"

section \<open>generate: checking the input (lines 56-124)\<close>

text \<open>\<^verbatim>\<open>'{}'.format(v)\<close>: a string is inserted as it is.\<close>

definition format_arg :: "'w env \<Rightarrow> pyval \<Rightarrow> string" where
  "format_arg env v = (case v of PStr s \<Rightarrow> s | _ \<Rightarrow> str_builtin env v)"

text \<open>Lines 57-63: \<^verbatim>\<open>type(n_gen) != int\<close> rejects booleans too; the check returns the
  integer.\<close>

definition check_n_gen :: "pyval \<Rightarrow> error + int" where
  "check_n_gen v =
     (case v of
        PInt n \<Rightarrow>
          if n < 1 then Inl (ValueError ''Please ensure the number of generated sources is > 0'')
          else Inr n
      | _ \<Rightarrow> Inl (ValueError ''Please ensure the number of generated sources is an integer''))"

text \<open>Lines 65-66.\<close>

definition check_cosmology :: "pyval \<Rightarrow> error + unit" where
  "check_cosmology v =
     (case v of PBool _ \<Rightarrow> Inr () | _ \<Rightarrow> Inl (ValueError ''Please ensure cosmology is a boolean''))"

text \<open>
  The two checks every list parameter goes through (lines 68-74, 80-86, 88-95, 97-104,
  113-120): all elements are floats or ints, with message \<open>m1\<close>, then the length is \<open>k\<close>,
  with message \<open>m2\<close>.
\<close>

definition check_pars :: "pyval \<Rightarrow> nat \<Rightarrow> string \<Rightarrow> string \<Rightarrow> error + unit" where
  "check_pars v k m1 m2 =
     (case iterate v of
        Inl e \<Rightarrow> Inl e
      | Inr xs \<Rightarrow>
          if \<not> list_all isinstance_float_int xs then Inl (ValueError m1)
          else (case len v of
                  Inl e \<Rightarrow> Inl e
                | Inr l \<Rightarrow> if l \<noteq> k then Inl (ValueError m2) else Inr ()))"

text \<open>Lines 76-78: \<^verbatim>\<open>electron_model not in ['ne2001']\<close>.\<close>

definition check_electron_model :: "'w env \<Rightarrow> pyval \<Rightarrow> error + unit" where
  "check_electron_model env v =
     (if v \<noteq> PStr ''ne2001''
      then Inl (ValueError (''Unsupported electron model: '' @ format_arg env v))
      else Inr ())"

text \<open>Lines 106-111: the default replaces every falsy name, then the type is checked; the
  check returns the name as rebound.\<close>

definition check_name :: "pyval \<Rightarrow> error + pyval" where
  "check_name v =
     (let nm = (if falsy v then PStr ''Initial'' else v)
      in case nm of
           PStr _ \<Rightarrow> Inr nm
         | _ \<Rightarrow> Inl (ValueError ''Please provide a string as input for the name of the population''))"

text \<open>Lines 122-124.\<close>

definition check_z_max :: "pyval \<Rightarrow> error + unit" where
  "check_z_max v =
     (if \<not> isinstance_float_int v
      then Inl (ValueError ''Please ensure the maximum redshift is given as a float or integer'')
      else Inr ())"

text \<open>Checks run in order; the first one that raises ends the function.\<close>

fun first_error :: "(error + unit) list \<Rightarrow> error + unit" where
  "first_error [] = Inr ()"
| "first_error (Inl e # cs) = Inl e"
| "first_error (Inr _ # cs) = first_error cs"

text \<open>The whole block, in the order of the source. It returns the integer \<^verbatim>\<open>n_gen\<close> and
  the name as rebound by line 107.\<close>

definition check_input :: "'w env \<Rightarrow> config \<Rightarrow> error + int \<times> pyval" where
  "check_input env cfg =
     (case check_n_gen (n_gen cfg) of
        Inl e \<Rightarrow> Inl e
      | Inr n \<Rightarrow>
     (case first_error
        [ check_cosmology (cosmology cfg),
          check_pars (cosmo_pars cfg) 3
            ''Please ensure all cosmology parameters are floats or integeters''
            ''Please ensure there are three cosmology parameters'',
          check_electron_model env (electron_model cfg),
          check_pars (emission_pars cfg) 2
            ''Please ensure all emission parameters are floats or integeters''
            ''Please ensure there are two emission parameters'',
          check_pars (lum_dist_pars cfg) 3
            ''Please ensure all luminosity distribution parameters are floats or integeters''
            ''Please ensure there are three luminosity distribution parameters'',
          check_pars (pulse cfg) 2
            ''Please ensure all pulse parameters are floats or integeters''
            ''Please ensure there are two pulse parameters'' ] of
        Inl e \<Rightarrow> Inl e
      | Inr _ \<Rightarrow>
     (case check_name (name cfg) of
        Inl e \<Rightarrow> Inl e
      | Inr nm \<Rightarrow>
     (case first_error
        [ check_pars (si_pars cfg) 2
            ''Please ensure all spectral index parameters are floats or integers''
            ''Please ensure there are two spectral index parameters'',
          check_z_max (z_max cfg) ] of
        Inl e \<Rightarrow> Inl e
      | Inr _ \<Rightarrow> Inr (n, nm)))))"

section \<open>generate: setting up the population (lines 126-153)\<close>

text \<open>Sequencing of operations that may raise.\<close>

definition bind_err :: "error + 'a \<Rightarrow> ('a \<Rightarrow> error + 'b) \<Rightarrow> error + 'b" where
  "bind_err m f = (case m of Inl e \<Rightarrow> Inl e | Inr x \<Rightarrow> f x)"

text \<open>
  Lines 127-145, for the integer \<open>n\<close> and the name \<open>nm\<close> that the checks return. The
  three cosmology parameters are read before \<^verbatim>\<open>go.z_to_v(z_max)\<close> is called, the other
  parameters after it. \<^verbatim>\<open>z_to_v\<close> receives the maximum redshift and nothing else.
\<close>

definition set_up_population ::
  "'w env \<Rightarrow> config \<Rightarrow> int \<Rightarrow> pyval \<Rightarrow> 'w \<Rightarrow> (error + population) \<times> 'w" where
  "set_up_population env cfg n nm w =
     (case bind_err (getitem (cosmo_pars cfg) 0) (\<lambda>H_0.
           bind_err (getitem (cosmo_pars cfg) 1) (\<lambda>W_m.
           bind_err (getitem (cosmo_pars cfg) 2) (\<lambda>W_v. Inr (H_0, W_m, W_v)))) of
        Inl e \<Rightarrow> (Inl e, w)
      | Inr (H_0, W_m, W_v) \<Rightarrow>
          (case z_to_v env (z_max cfg) w of
             (Inl e, w') \<Rightarrow> (Inl e, w')
           | (Inr v_max, w') \<Rightarrow>
               (bind_err (getitem (lum_dist_pars cfg) 0) (\<lambda>lum_min.
                bind_err (getitem (lum_dist_pars cfg) 1) (\<lambda>lum_max.
                bind_err (getitem (lum_dist_pars cfg) 2) (\<lambda>lum_pow.
                bind_err (getitem (pulse cfg) 0) (\<lambda>w_min.
                bind_err (getitem (pulse cfg) 1) (\<lambda>w_max.
                bind_err (getitem (emission_pars cfg) 0) (\<lambda>f_min.
                bind_err (getitem (emission_pars cfg) 1) (\<lambda>f_max.
                bind_err (getitem (si_pars cfg) 0) (\<lambda>si_mean.
                bind_err (getitem (si_pars cfg) 1) (\<lambda>si_sigma.
                  Inr \<lparr> pop_name = nm,
                        pop_n_gen = n,
                        pop_electron_model = electron_model cfg,
                        pop_cosmology = cosmology cfg,
                        pop_H_0 = H_0,
                        pop_W_m = W_m,
                        pop_W_v = W_v,
                        pop_z_max = z_max cfg,
                        pop_v_max = v_max,
                        pop_lum_min = lum_min,
                        pop_lum_max = lum_max,
                        pop_lum_pow = lum_pow,
                        pop_w_min = w_min,
                        pop_w_max = w_max,
                        pop_f_min = f_min,
                        pop_f_max = f_max,
                        pop_si_mean = si_mean,
                        pop_si_sigma = si_sigma,
                        pop_n_srcs = Population_n_srcs env,
                        pop_sources = Population_sources env \<rparr>))))))))),
                w')))"

section \<open>generate: the sampling loop (lines 155-196)\<close>

text \<open>
  One pass through the body of the loop up to line 192: the source it builds, or the
  exception of \<^verbatim>\<open>math.asin\<close> or of a collaborator. The four calls of \<^verbatim>\<open>random.random()\<close> are made in the
  order of the source, each on the state the previous one left.
\<close>

definition sample_source ::
  "'w env \<Rightarrow> real list \<Rightarrow> real list \<Rightarrow> population \<Rightarrow> 'w \<Rightarrow> (error + source) \<times> 'w" where
  "sample_source env ds zs pop w0 =
     (let (u1, w1) = random_random env w0
      in case math_asin u1 of
           Inl e \<Rightarrow> (Inl e, w1)
         | Inr a \<Rightarrow>
     (let gb0 = degrees a;
          (u2, w2) = random_random env w1;
          gb = (if u2 < 0.5 then gb0 * (- 1) else gb0);
          (u3, w3) = random_random env w2;
          gl = u3 * 360;
          (u4, w4) = random_random env w3;
          dist = pow_third (pop_v_max pop * u4 * (3 / (4 * pi)))
      in case interpolate_z env dist ds zs (pop_H_0 pop) w4 of
           (Inl e, w5) \<Rightarrow> (Inl e, w5)
         | (Inr z, w5) \<Rightarrow>
      (case lb_to_xyz env gl gb dist w5 of
           (Inl e, w6) \<Rightarrow> (Inl e, w6)
         | (Inr (gx, gy, gz), w6) \<Rightarrow>
      (case ne2001_dist_to_dm env dist gl gb w6 of
           (Inl e, w7) \<Rightarrow> (Inl e, w7)
         | (Inr dm_mw, w7) \<Rightarrow>
      (case ioka_dm_igm env z w7 of
           (Inl e, w8) \<Rightarrow> (Inl e, w8)
         | (Inr dm_igm, w8) \<Rightarrow>
      (let dm_host = 100;
           dm = dm_mw + dm_igm + dm_host
       in case redshift_pulse env z (pop_w_min pop) (pop_w_max pop) w8 of
           (Inl e, w9) \<Rightarrow> (Inl e, w9)
         | (Inr w_int, w9) \<Rightarrow>
      (case powerlaw env (pop_lum_min pop) (pop_lum_max pop) (pop_lum_pow pop) w9 of
           (Inl e, w10) \<Rightarrow> (Inl e, w10)
         | (Inr lum_bol, w10) \<Rightarrow>
             (Inr \<lparr> src_gb = gb,
                    src_gl = gl,
                    src_dist = dist,
                    src_z = z,
                    src_gx = gx,
                    src_gy = gy,
                    src_gz = gz,
                    src_dm_mw = dm_mw,
                    src_dm_igm = dm_igm,
                    src_dm_host = dm_host,
                    src_dm = dm,
                    src_w_int = w_int,
                    src_lum_bol = lum_bol,
                    src_si = - 1.4 \<rparr>,
              w10))))))))"

text \<open>Lines 195-196.\<close>

definition add_source :: "population \<Rightarrow> source \<Rightarrow> population" where
  "add_source pop src =
     pop\<lparr> pop_sources := pop_sources pop @ [src], pop_n_srcs := pop_n_srcs pop + 1 \<rparr>"

text \<open>The \<^verbatim>\<open>while\<close> loop of line 155. An exception in the body leaves the loop.\<close>

function sampling_loop ::
  "'w env \<Rightarrow> real list \<Rightarrow> real list \<Rightarrow> population \<Rightarrow> 'w \<Rightarrow> (error + population) \<times> 'w" where
  "sampling_loop env ds zs pop w =
     (if pop_n_srcs pop < pop_n_gen pop
      then (case sample_source env ds zs pop w of
              (Inl e, w') \<Rightarrow> (Inl e, w')
            | (Inr src, w') \<Rightarrow> sampling_loop env ds zs (add_source pop src) w')
      else (Inr pop, w))"
  by pat_completeness auto
termination
  by (relation "measure (\<lambda>(env, ds, zs, pop, w). nat (pop_n_gen pop - pop_n_srcs pop))")
     (auto simp: add_source_def)

section \<open>generate\<close>

text \<open>Everything before the loop (lines 56-153): the checks, the population, and the lookup
  table, built once from the attributes stored on the population.\<close>

definition before_loop ::
  "'w env \<Rightarrow> config \<Rightarrow> 'w \<Rightarrow> (error + real list \<times> real list \<times> population) \<times> 'w" where
  "before_loop env cfg w =
     (case check_input env cfg of
        Inl e \<Rightarrow> (Inl e, w)
      | Inr (n, nm) \<Rightarrow>
          (case set_up_population env cfg n nm w of
             (Inl e, w1) \<Rightarrow> (Inl e, w1)
           | (Inr pop, w1) \<Rightarrow>
               (case dist_lookup env (pop_cosmology pop) (pop_H_0 pop) (pop_W_m pop)
                       (pop_W_v pop) (pop_z_max pop) w1 of
                  (Inl e, w2) \<Rightarrow> (Inl e, w2)
                | (Inr (ds, zs), w2) \<Rightarrow> (Inr (ds, zs, pop), w2))))"

text \<open>The function: the result is the population (line 198) or the exception raised, and
  the hidden state the call leaves behind.\<close>

definition generate :: "'w env \<Rightarrow> config \<Rightarrow> 'w \<Rightarrow> (error + population) \<times> 'w" where
  "generate env cfg w =
     (case before_loop env cfg w of
        (Inl e, w2) \<Rightarrow> (Inl e, w2)
      | (Inr (ds, zs, pop), w2) \<Rightarrow> sampling_loop env ds zs pop w2)"

section \<open>Notions used by the properties\<close>

text \<open>
  The states at the head of the loop (line 155) in a run that enters the loop with
  population \<open>pop0\<close> and hidden state \<open>w0\<close>: the entry state, and the state after every
  completed pass through the body.
\<close>

inductive loop_head ::
  "'w env \<Rightarrow> real list \<Rightarrow> real list \<Rightarrow> population \<Rightarrow> 'w \<Rightarrow> population \<Rightarrow> 'w \<Rightarrow> bool"
  for env ds zs pop0 w0 where
    entry: "loop_head env ds zs pop0 w0 pop0 w0"
  | pass: "loop_head env ds zs pop0 w0 pop w \<Longrightarrow>
           pop_n_srcs pop < pop_n_gen pop \<Longrightarrow>
           sample_source env ds zs pop w = (Inr src, w') \<Longrightarrow>
           loop_head env ds zs pop0 w0 (add_source pop src) w'"

text \<open>
  The validation rules of the input, parameter by parameter, as the checks of lines 56-124
  apply them: a number is a float or an int (booleans included), a list parameter is a list
  of the stated length, and a name is checked after the default has replaced a falsy one.
\<close>

fun number_list :: "nat \<Rightarrow> pyval \<Rightarrow> bool" where
  "number_list k (PList xs) = (length xs = k \<and> list_all isinstance_float_int xs)"
| "number_list k _ = False"

fun positive_int :: "pyval \<Rightarrow> bool" where
  "positive_int (PInt n) = (1 \<le> n)"
| "positive_int _ = False"

fun is_bool :: "pyval \<Rightarrow> bool" where
  "is_bool (PBool _) = True"
| "is_bool _ = False"

fun is_str :: "pyval \<Rightarrow> bool" where
  "is_str (PStr _) = True"
| "is_str _ = False"

definition valid_config :: "config \<Rightarrow> bool" where
  "valid_config cfg \<longleftrightarrow>
     positive_int (n_gen cfg) \<and>
     is_bool (cosmology cfg) \<and>
     number_list 3 (cosmo_pars cfg) \<and>
     electron_model cfg = PStr ''ne2001'' \<and>
     number_list 2 (emission_pars cfg) \<and>
     number_list 3 (lum_dist_pars cfg) \<and>
     number_list 2 (pulse cfg) \<and>
     (falsy (name cfg) \<or> is_str (name cfg)) \<and>
     number_list 2 (si_pars cfg) \<and>
     isinstance_float_int (z_max cfg)"

text \<open>The integer a valid \<^verbatim>\<open>n_gen\<close> denotes.\<close>

fun int_of :: "pyval \<Rightarrow> int" where
  "int_of (PInt n) = n"
| "int_of _ = 0"

text \<open>The element of a list parameter, where it exists.\<close>

definition item :: "pyval \<Rightarrow> nat \<Rightarrow> pyval" where
  "item v i = (case getitem v i of Inr x \<Rightarrow> x | Inl _ \<Rightarrow> PNone)"

text \<open>A call that returns a value.\<close>

definition returns :: "(error + 'a) \<times> 'w \<Rightarrow> bool" where
  "returns r = (case fst r of Inr _ \<Rightarrow> True | Inl _ \<Rightarrow> False)"

text \<open>
  No collaborator raises on the arguments \<^verbatim>\<open>generate\<close> can pass to it for the
  configuration \<open>cfg\<close>: the arguments taken from the configuration are fixed, the sampled
  ones and the hidden state are arbitrary.
\<close>

definition collaborators_return :: "'w env \<Rightarrow> config \<Rightarrow> bool" where
  "collaborators_return env cfg \<longleftrightarrow>
     (\<forall>w. returns (z_to_v env (z_max cfg) w)) \<and>
     (\<forall>w. returns (dist_lookup env (cosmology cfg) (item (cosmo_pars cfg) 0)
                     (item (cosmo_pars cfg) 1) (item (cosmo_pars cfg) 2) (z_max cfg) w)) \<and>
     (\<forall>d ds zs w. returns (interpolate_z env d ds zs (item (cosmo_pars cfg) 0) w)) \<and>
     (\<forall>gl gb d w. returns (lb_to_xyz env gl gb d w)) \<and>
     (\<forall>d gl gb w. returns (ne2001_dist_to_dm env d gl gb w)) \<and>
     (\<forall>z w. returns (ioka_dm_igm env z w)) \<and>
     (\<forall>z w. returns (redshift_pulse env z (item (pulse cfg) 0) (item (pulse cfg) 1) w)) \<and>
     (\<forall>w. returns (powerlaw env (item (lum_dist_pars cfg) 0) (item (lum_dist_pars cfg) 1)
                     (item (lum_dist_pars cfg) 2) w))"

text \<open>A freshly constructed population holds no source and counts none.\<close>

definition fresh_population_empty :: "'w env \<Rightarrow> bool" where
  "fresh_population_empty env \<longleftrightarrow> Population_n_srcs env = 0 \<and> Population_sources env = []"

text \<open>The contract of \<^verbatim>\<open>random.random()\<close>: a float in \<open>[0, 1)\<close>.\<close>

definition random_contract :: "'w env \<Rightarrow> bool" where
  "random_contract env \<longleftrightarrow> (\<forall>w. 0 \<le> fst (random_random env w) \<and> fst (random_random env w) < 1)"

text \<open>
  Modelled from the spec: the power-law sampler \<^verbatim>\<open>distributions.powerlaw\<close>, which is
  not part of the verified file. The specification (section 4.5) gives its contract as
  \<^verbatim>\<open>powerlaw(min, max, index) -> value\<close>, "value always within [min, max]".
\<close>

definition powerlaw_contract :: "'w env \<Rightarrow> bool" where
  "powerlaw_contract env \<longleftrightarrow>
     (\<forall>lo hi idx w v w'. powerlaw env lo hi idx w = (Inr v, w') \<longrightarrow> num_val lo \<le> v \<and> v \<le> num_val hi)"

subsection \<open>A concrete set of collaborators\<close>

text \<open>
  Stand-ins for the collaborators, used to run \<^verbatim>\<open>generate\<close> on concrete inputs. The
  hidden state is the number of calls made so far, so that a state left unchanged means
  that no collaborator was called. A uniform draw made in state \<open>k\<close> is \<open>k / (k + 1)\<close>.
\<close>

definition test_env :: "nat env" where
  "test_env =
     \<lparr> Population_n_srcs = 0,
       Population_sources = [],
       str_builtin = type_name,
       random_random = (\<lambda>w. (real w / (real w + 1), Suc w)),
       z_to_v = (\<lambda>z w. if num_val z < 0 then (Inl (DomainError ''negative redshift''), Suc w)
                        else (Inr (num_val z ^ 3), Suc w)),
       dist_lookup = (\<lambda>c h m v z w. (Inr ([0, num_val z], [0, num_val z]), Suc w)),
       interpolate_z = (\<lambda>d ds zs h w. (Inr (case d of Flt r \<Rightarrow> r | Cpx c \<Rightarrow> 0), Suc w)),
       lb_to_xyz = (\<lambda>gl gb d w. (Inr (0, 0, 0), Suc w)),
       ne2001_dist_to_dm = (\<lambda>d gl gb w. (Inr 30, Suc w)),
       ioka_dm_igm = (\<lambda>z w. (Inr (1200 * z), Suc w)),
       redshift_pulse = (\<lambda>z lo hi w. (Inr (num_val lo * (1 + z)), Suc w)),
       powerlaw = (\<lambda>lo hi idx w. if num_val lo \<le> num_val hi then (Inr (num_val lo), Suc w)
                       else (Inl (DomainError ''empty luminosity range''), Suc w)) \<rparr>"

text \<open>
  The same stand-ins with another sequence of draws: a uniform draw made in state \<open>k\<close> is
  \<open>1 / (k + 2)\<close>, so that the second draw of the first pass is below 0.5.
\<close>

definition flip_env :: "nat env" where
  "flip_env = test_env\<lparr> random_random := (\<lambda>w. (1 / (real w + 2), Suc w)) \<rparr>"

section \<open>The checks decide the validation rules\<close>


lemma list_all_chars_str: "list_all isinstance_float_int (map (\<lambda>c. PStr [c]) s) \<longleftrightarrow> s = []"
  by (cases s) auto

lemma check_pars_iff:
  "0 < k \<Longrightarrow> check_pars v k m1 m2 = Inr () \<longleftrightarrow> number_list k v"
  by (cases v) (auto simp: check_pars_def list_all_chars_str)

lemma check_n_gen_iff: "check_n_gen v = Inr n \<longleftrightarrow> v = PInt n \<and> 1 \<le> n"
  by (cases v) (auto simp: check_n_gen_def)

lemma check_n_gen_valid: "positive_int v \<Longrightarrow> check_n_gen v = Inr (int_of v)"
  by (cases v) (auto simp: check_n_gen_def)

lemma check_cosmology_iff: "check_cosmology v = Inr () \<longleftrightarrow> is_bool v"
  by (cases v) (auto simp: check_cosmology_def)

lemma check_electron_model_iff: "check_electron_model env v = Inr () \<longleftrightarrow> v = PStr ''ne2001''"
  by (auto simp: check_electron_model_def)

lemma check_name_valid:
  "falsy v \<or> is_str v \<Longrightarrow> check_name v = Inr (if falsy v then PStr ''Initial'' else v)"
  by (cases v) (auto simp: check_name_def)

lemma check_name_invalid:
  "\<not> (falsy v \<or> is_str v) \<Longrightarrow>
   check_name v = Inl (ValueError ''Please provide a string as input for the name of the population'')"
  by (cases v) (auto simp: check_name_def)

lemma check_z_max_iff: "check_z_max v = Inr () \<longleftrightarrow> isinstance_float_int v"
  by (auto simp: check_z_max_def)

lemma first_error_Inr: "first_error cs = Inr u \<longleftrightarrow> (\<forall>c\<in>set cs. c = Inr ())"
  by (induction cs rule: first_error.induct) auto

lemma check_input_valid:
  assumes "valid_config cfg"
  shows "check_input env cfg = Inr (int_of (n_gen cfg), if falsy (name cfg) then PStr ''Initial'' else name cfg)"
proof -
  have fe1: "first_error
        [ check_cosmology (cosmology cfg),
          check_pars (cosmo_pars cfg) 3
            ''Please ensure all cosmology parameters are floats or integeters''
            ''Please ensure there are three cosmology parameters'',
          check_electron_model env (electron_model cfg),
          check_pars (emission_pars cfg) 2
            ''Please ensure all emission parameters are floats or integeters''
            ''Please ensure there are two emission parameters'',
          check_pars (lum_dist_pars cfg) 3
            ''Please ensure all luminosity distribution parameters are floats or integeters''
            ''Please ensure there are three luminosity distribution parameters'',
          check_pars (pulse cfg) 2
            ''Please ensure all pulse parameters are floats or integeters''
            ''Please ensure there are two pulse parameters'' ] = Inr ()"
    using assms
    by (simp add: first_error_Inr valid_config_def check_cosmology_iff check_pars_iff
        check_electron_model_iff)
  have fe2: "first_error
        [ check_pars (si_pars cfg) 2
            ''Please ensure all spectral index parameters are floats or integers''
            ''Please ensure there are two spectral index parameters'',
          check_z_max (z_max cfg) ] = Inr ()"
    using assms by (simp add: first_error_Inr valid_config_def check_pars_iff check_z_max_iff)
  have n: "check_n_gen (n_gen cfg) = Inr (int_of (n_gen cfg))"
    using assms by (simp add: valid_config_def check_n_gen_valid)
  have nm: "check_name (name cfg) = Inr (if falsy (name cfg) then PStr ''Initial'' else name cfg)"
    using assms by (simp add: valid_config_def check_name_valid)
  show ?thesis
    unfolding check_input_def by (simp only: fe1 fe2 n nm sum.case prod.case)
qed

lemma check_input_Inr_valid:
  assumes "check_input env cfg = Inr r"
  shows "valid_config cfg"
proof -
  from assms obtain n where n: "check_n_gen (n_gen cfg) = Inr n"
    unfolding check_input_def by (auto split: sum.splits)
  from assms n have fe1: "first_error
        [ check_cosmology (cosmology cfg),
          check_pars (cosmo_pars cfg) 3
            ''Please ensure all cosmology parameters are floats or integeters''
            ''Please ensure there are three cosmology parameters'',
          check_electron_model env (electron_model cfg),
          check_pars (emission_pars cfg) 2
            ''Please ensure all emission parameters are floats or integeters''
            ''Please ensure there are two emission parameters'',
          check_pars (lum_dist_pars cfg) 3
            ''Please ensure all luminosity distribution parameters are floats or integeters''
            ''Please ensure there are three luminosity distribution parameters'',
          check_pars (pulse cfg) 2
            ''Please ensure all pulse parameters are floats or integeters''
            ''Please ensure there are two pulse parameters'' ] = Inr ()"
    unfolding check_input_def by (simp split: sum.splits)
  from assms n fe1 obtain nm where nm: "check_name (name cfg) = Inr nm"
    unfolding check_input_def by (auto split: sum.splits)
  from assms n fe1 nm have fe2: "first_error
        [ check_pars (si_pars cfg) 2
            ''Please ensure all spectral index parameters are floats or integers''
            ''Please ensure there are two spectral index parameters'',
          check_z_max (z_max cfg) ] = Inr ()"
    unfolding check_input_def by (simp split: sum.splits)
  have "positive_int (n_gen cfg)"
    using n by (auto simp: check_n_gen_iff)
  moreover have "falsy (name cfg) \<or> is_str (name cfg)"
    using nm check_name_invalid[of "name cfg"] by auto
  ultimately show ?thesis
    using fe1 fe2
    by (simp add: first_error_Inr valid_config_def check_cosmology_iff check_pars_iff
        check_electron_model_iff check_z_max_iff)
qed

lemma check_input_invalid:
  "\<not> valid_config cfg \<Longrightarrow> \<exists>e. check_input env cfg = Inl e"
  using check_input_Inr_valid[of env cfg] by (cases "check_input env cfg") auto

section \<open>Setting up a valid configuration\<close>

lemma getitem_number_list: "number_list k v \<Longrightarrow> i < k \<Longrightarrow> getitem v i = Inr (item v i)"
  by (cases v) (auto simp: item_def)

lemma set_up_population_valid:
  assumes "valid_config cfg"
  shows "set_up_population env cfg n nm w =
     (case z_to_v env (z_max cfg) w of
        (Inl e, w') \<Rightarrow> (Inl e, w')
      | (Inr v_max, w') \<Rightarrow>
          (Inr \<lparr> pop_name = nm,
                 pop_n_gen = n,
                 pop_electron_model = electron_model cfg,
                 pop_cosmology = cosmology cfg,
                 pop_H_0 = item (cosmo_pars cfg) 0,
                 pop_W_m = item (cosmo_pars cfg) 1,
                 pop_W_v = item (cosmo_pars cfg) 2,
                 pop_z_max = z_max cfg,
                 pop_v_max = v_max,
                 pop_lum_min = item (lum_dist_pars cfg) 0,
                 pop_lum_max = item (lum_dist_pars cfg) 1,
                 pop_lum_pow = item (lum_dist_pars cfg) 2,
                 pop_w_min = item (pulse cfg) 0,
                 pop_w_max = item (pulse cfg) 1,
                 pop_f_min = item (emission_pars cfg) 0,
                 pop_f_max = item (emission_pars cfg) 1,
                 pop_si_mean = item (si_pars cfg) 0,
                 pop_si_sigma = item (si_pars cfg) 1,
                 pop_n_srcs = Population_n_srcs env,
                 pop_sources = Population_sources env \<rparr>, w'))"
proof -
  have c: "number_list 3 (cosmo_pars cfg)" and l: "number_list 3 (lum_dist_pars cfg)"
    and p: "number_list 2 (pulse cfg)" and e: "number_list 2 (emission_pars cfg)"
    and s: "number_list 2 (si_pars cfg)"
    using assms by (simp_all add: valid_config_def)
  show ?thesis
    unfolding set_up_population_def bind_err_def
    by (simp add: getitem_number_list[OF c] getitem_number_list[OF l] getitem_number_list[OF p]
        getitem_number_list[OF e] getitem_number_list[OF s] split: prod.splits sum.splits)
qed

section \<open>The loop\<close>

lemma sample_source_sources [simp]:
  "sample_source env ds zs (p\<lparr>pop_sources := xs\<rparr>) w = sample_source env ds zs p w"
  by (simp add: sample_source_def cong: prod.case_cong sum.case_cong)

lemma sample_source_n_srcs [simp]:
  "sample_source env ds zs (p\<lparr>pop_n_srcs := k\<rparr>) w = sample_source env ds zs p w"
  by (simp add: sample_source_def cong: prod.case_cong sum.case_cong)

lemma sample_source_si [simp]:
  "sample_source env ds zs (p\<lparr>pop_si_mean := a\<rparr>) w = sample_source env ds zs p w"
  "sample_source env ds zs (p\<lparr>pop_si_sigma := b\<rparr>) w = sample_source env ds zs p w"
  by (simp_all add: sample_source_def cong: prod.case_cong sum.case_cong)

lemma sample_source_add_source [simp]:
  "sample_source env ds zs (add_source p s) w = sample_source env ds zs p w"
  by (simp add: add_source_def)

declare sampling_loop.simps [simp del]

lemma returns_Inr [simp]: "returns (Inr x, w)" and returns_Inl [simp]: "\<not> returns (Inl e, w)"
  by (simp_all add: returns_def)

lemma returnsE: "returns r \<Longrightarrow> \<exists>x w. r = (Inr x, w)"
  by (cases r; cases "fst r") (auto simp: returns_def)

lemma sampling_loop_returns:
  "(\<And>w. returns (sample_source env ds zs p w)) \<Longrightarrow> returns (sampling_loop env ds zs p w)"
proof (induction env ds zs p w rule: sampling_loop.induct)
  case (1 env ds zs pop w)
  show ?case
  proof (cases "pop_n_srcs pop < pop_n_gen pop")
    case True
    from "1.prems"[of w] obtain src w' where s: "sample_source env ds zs pop w = (Inr src, w')"
      using returnsE by blast
    have "returns (sampling_loop env ds zs (add_source pop src) w')"
      using "1.IH"[OF True s[symmetric] refl] "1.prems" by simp
    then show ?thesis
      using True s by (simp add: sampling_loop.simps[of env ds zs pop w])
  next
    case False
    then show ?thesis by (simp add: sampling_loop.simps[of env ds zs pop w])
  qed
qed

lemma sampling_loop_loop_head:
  "loop_head env ds zs pop0 w0 p w \<Longrightarrow> sampling_loop env ds zs p w = (Inr p', w') \<Longrightarrow>
   loop_head env ds zs pop0 w0 p' w' \<and> \<not> pop_n_srcs p' < pop_n_gen p'"
proof (induction env ds zs p w rule: sampling_loop.induct)
  case (1 env ds zs pop w)
  show ?case
  proof (cases "pop_n_srcs pop < pop_n_gen pop")
    case True
    from "1.prems"(2) True obtain src w1 where s: "sample_source env ds zs pop w = (Inr src, w1)"
      and r: "sampling_loop env ds zs (add_source pop src) w1 = (Inr p', w')"
      by (auto simp: sampling_loop.simps[of env ds zs pop w] split: sum.splits prod.splits)
    have "loop_head env ds zs pop0 w0 (add_source pop src) w1"
      using "1.prems"(1) True s by (rule loop_head.pass)
    then show ?thesis
      using "1.IH"[OF True s[symmetric] refl] r by simp
  next
    case False
    with "1.prems" show ?thesis by (simp add: sampling_loop.simps[of env ds zs pop w])
  qed
qed

lemma loop_head_settings:
  "loop_head env ds zs pop0 w0 p w \<Longrightarrow>
   p = pop0\<lparr>pop_n_srcs := pop_n_srcs p, pop_sources := pop_sources p\<rparr>"
proof (induction rule: loop_head.induct)
  case entry
  show ?case by simp
next
  case (pass pop w src w')
  from pass.IH have "add_source pop src = add_source (pop0\<lparr>pop_n_srcs := pop_n_srcs pop, pop_sources := pop_sources pop\<rparr>) src"
    by simp
  then show ?case by (simp add: add_source_def)
qed

lemma loop_head_n_gen: "loop_head env ds zs pop0 w0 p w \<Longrightarrow> pop_n_gen p = pop_n_gen pop0"
  by (induction rule: loop_head.induct) (simp_all add: add_source_def)

lemma loop_head_bound:
  "loop_head env ds zs pop0 w0 p w \<Longrightarrow> pop_n_srcs pop0 \<le> pop_n_gen pop0 \<Longrightarrow>
   pop_n_srcs p \<le> pop_n_gen pop0"
  by (induction rule: loop_head.induct) (simp_all add: add_source_def loop_head_n_gen)

lemma loop_head_count:
  "loop_head env ds zs pop0 w0 p w \<Longrightarrow>
   int (length (pop_sources p)) - pop_n_srcs p = int (length (pop_sources pop0)) - pop_n_srcs pop0"
  by (induction rule: loop_head.induct) (simp_all add: add_source_def)

lemma loop_head_sources:
  "loop_head env ds zs pop0 w0 p w \<Longrightarrow>
   \<exists>new. pop_sources p = pop_sources pop0 @ new \<and>
         (\<forall>s\<in>set new. \<exists>wq wq'. sample_source env ds zs pop0 wq = (Inr s, wq'))"
proof (induction rule: loop_head.induct)
  case entry
  show ?case by simp
next
  case (pass pop w src w')
  from pass.IH obtain new where n: "pop_sources pop = pop_sources pop0 @ new"
    and a: "\<forall>s\<in>set new. \<exists>wq wq'. sample_source env ds zs pop0 wq = (Inr s, wq')"
    by blast
  have "pop = pop0\<lparr>pop_n_srcs := pop_n_srcs pop, pop_sources := pop_sources pop\<rparr>"
    using pass.hyps(1) by (rule loop_head_settings)
  then have "sample_source env ds zs pop w = sample_source env ds zs pop0 w"
    by (metis sample_source_sources sample_source_n_srcs)
  with pass.hyps(3) have "sample_source env ds zs pop0 w = (Inr src, w')" by simp
  with a have "\<forall>s\<in>set (new @ [src]). \<exists>wq wq'. sample_source env ds zs pop0 wq = (Inr s, wq')"
    by auto
  moreover have "pop_sources (add_source pop src) = pop_sources pop0 @ (new @ [src])"
    using n by (simp add: add_source_def)
  ultimately show ?case by blast
qed

section \<open>Runs of generate\<close>

lemma before_loop_valid:
  assumes "valid_config cfg"
  shows "before_loop env cfg w =
     (case z_to_v env (z_max cfg) w of
        (Inl e, w1) \<Rightarrow> (Inl e, w1)
      | (Inr v_max, w1) \<Rightarrow>
          (case dist_lookup env (cosmology cfg) (item (cosmo_pars cfg) 0) (item (cosmo_pars cfg) 1)
                  (item (cosmo_pars cfg) 2) (z_max cfg) w1 of
             (Inl e, w2) \<Rightarrow> (Inl e, w2)
           | (Inr (ds, zs), w2) \<Rightarrow>
               (Inr (ds, zs,
                  \<lparr> pop_name = (if falsy (name cfg) then PStr ''Initial'' else name cfg),
                    pop_n_gen = int_of (n_gen cfg),
                    pop_electron_model = electron_model cfg,
                    pop_cosmology = cosmology cfg,
                    pop_H_0 = item (cosmo_pars cfg) 0,
                    pop_W_m = item (cosmo_pars cfg) 1,
                    pop_W_v = item (cosmo_pars cfg) 2,
                    pop_z_max = z_max cfg,
                    pop_v_max = v_max,
                    pop_lum_min = item (lum_dist_pars cfg) 0,
                    pop_lum_max = item (lum_dist_pars cfg) 1,
                    pop_lum_pow = item (lum_dist_pars cfg) 2,
                    pop_w_min = item (pulse cfg) 0,
                    pop_w_max = item (pulse cfg) 1,
                    pop_f_min = item (emission_pars cfg) 0,
                    pop_f_max = item (emission_pars cfg) 1,
                    pop_si_mean = item (si_pars cfg) 0,
                    pop_si_sigma = item (si_pars cfg) 1,
                    pop_n_srcs = Population_n_srcs env,
                    pop_sources = Population_sources env \<rparr>), w2)))"
  unfolding before_loop_def
  by (simp add: check_input_valid[OF assms] set_up_population_valid[OF assms]
      split: prod.splits sum.splits)

lemma before_loop_invalid:
  assumes "\<not> valid_config cfg"
  shows "\<exists>e. before_loop env cfg w = (Inl e, w)"
proof -
  from check_input_invalid[OF assms, of env]
  obtain e where "check_input env cfg = Inl e" by blast
  then show ?thesis by (simp add: before_loop_def)
qed

lemma before_loop_Inr_valid:
  "before_loop env cfg w = (Inr r, w0) \<Longrightarrow> valid_config cfg"
  using before_loop_invalid[of cfg env w] by auto

lemma before_loop_Inr:
  assumes "before_loop env cfg w = (Inr (ds, zs, pop0), w0)"
  shows "valid_config cfg"
    and "pop_n_gen pop0 = int_of (n_gen cfg)"
    and "pop_n_srcs pop0 = Population_n_srcs env"
    and "pop_sources pop0 = Population_sources env"
    and "pop_name pop0 = (if falsy (name cfg) then PStr ''Initial'' else name cfg)"
    and "\<exists>w1. z_to_v env (z_max cfg) w = (Inr (pop_v_max pop0), w1)"
    and "pop_lum_min pop0 = item (lum_dist_pars cfg) 0"
    and "pop_lum_max pop0 = item (lum_dist_pars cfg) 1"
    and "pop_si_mean pop0 = item (si_pars cfg) 0"
    and "pop_si_sigma pop0 = item (si_pars cfg) 1"
proof -
  show v: "valid_config cfg" using assms by (rule before_loop_Inr_valid)
  note b = assms[unfolded before_loop_valid[OF v]]
  show "pop_n_gen pop0 = int_of (n_gen cfg)"
    using b by (auto split: prod.splits sum.splits)
  show "pop_n_srcs pop0 = Population_n_srcs env"
    using b by (auto split: prod.splits sum.splits)
  show "pop_sources pop0 = Population_sources env"
    using b by (auto split: prod.splits sum.splits)
  show "pop_name pop0 = (if falsy (name cfg) then PStr ''Initial'' else name cfg)"
    using b by (auto split: prod.splits sum.splits)
  show "\<exists>w1. z_to_v env (z_max cfg) w = (Inr (pop_v_max pop0), w1)"
    using b by (auto split: prod.splits sum.splits)
  show "pop_lum_min pop0 = item (lum_dist_pars cfg) 0"
    using b by (auto split: prod.splits sum.splits)
  show "pop_lum_max pop0 = item (lum_dist_pars cfg) 1"
    using b by (auto split: prod.splits sum.splits)
  show "pop_si_mean pop0 = item (si_pars cfg) 0"
    using b by (auto split: prod.splits sum.splits)
  show "pop_si_sigma pop0 = item (si_pars cfg) 1"
    using b by (auto split: prod.splits sum.splits)
qed

lemma generate_Inr:
  assumes "generate env cfg w = (Inr pop, w')"
  shows "\<exists>ds zs pop0 w0. before_loop env cfg w = (Inr (ds, zs, pop0), w0) \<and>
           loop_head env ds zs pop0 w0 pop w' \<and> \<not> pop_n_srcs pop < pop_n_gen pop"
proof -
  from assms obtain ds zs pop0 w0 where b: "before_loop env cfg w = (Inr (ds, zs, pop0), w0)"
    and l: "sampling_loop env ds zs pop0 w0 = (Inr pop, w')"
    by (auto simp: generate_def split: prod.splits sum.splits)
  have "loop_head env ds zs pop0 w0 pop0 w0" by (rule loop_head.entry)
  from sampling_loop_loop_head[OF this l] b show ?thesis by blast
qed

lemma returnsE2: "returns r \<Longrightarrow> \<exists>a b w. r = (Inr (a, b), w)"
  using returnsE[of r] by auto

lemma returnsE3: "returns r \<Longrightarrow> \<exists>a b c w. r = (Inr (a, b, c), w)"
  using returnsE[of r] by auto

lemma collaborators_returnD:
  assumes "collaborators_return env cfg"
  shows "\<exists>v w1. z_to_v env (z_max cfg) w = (Inr v, w1)"
    and "\<exists>t w1. dist_lookup env (cosmology cfg) (item (cosmo_pars cfg) 0) (item (cosmo_pars cfg) 1)
            (item (cosmo_pars cfg) 2) (z_max cfg) w = (Inr t, w1)"
    and "\<exists>z w1. interpolate_z env d ds zs (item (cosmo_pars cfg) 0) w = (Inr z, w1)"
    and "\<exists>xyz w1. lb_to_xyz env gl gb d w = (Inr xyz, w1)"
    and "\<exists>dm w1. ne2001_dist_to_dm env d gl gb w = (Inr dm, w1)"
    and "\<exists>dm w1. ioka_dm_igm env z w = (Inr dm, w1)"
    and "\<exists>wi w1. redshift_pulse env z (item (pulse cfg) 0) (item (pulse cfg) 1) w = (Inr wi, w1)"
    and "\<exists>l w1. powerlaw env (item (lum_dist_pars cfg) 0) (item (lum_dist_pars cfg) 1)
            (item (lum_dist_pars cfg) 2) w = (Inr l, w1)"
  using assms unfolding collaborators_return_def by (simp_all add: returnsE returnsE2 returnsE3)

lemma sample_source_returns:
  assumes "collaborators_return env cfg" and "random_contract env"
    and "pop_H_0 p = item (cosmo_pars cfg) 0"
    and "pop_w_min p = item (pulse cfg) 0" and "pop_w_max p = item (pulse cfg) 1"
    and "pop_lum_min p = item (lum_dist_pars cfg) 0" and "pop_lum_max p = item (lum_dist_pars cfg) 1"
    and "pop_lum_pow p = item (lum_dist_pars cfg) 2"
  shows "returns (sample_source env ds zs p w)"
proof -
  obtain u1 w1 where r1: "random_random env w = (u1, w1)" by (cases "random_random env w")
  obtain u2 w2 where r2: "random_random env w1 = (u2, w2)" by (cases "random_random env w1")
  obtain u3 w3 where r3: "random_random env w2 = (u3, w3)" by (cases "random_random env w2")
  obtain u4 w4 where r4: "random_random env w3 = (u4, w4)" by (cases "random_random env w3")
  have "0 \<le> u1" "u1 < 1" using assms(2) r1 unfolding random_contract_def by (metis fst_conv)+
  then have a: "math_asin u1 = Inr (arcsin u1)" by (simp add: math_asin_def)
  let ?gb = "if u2 < 0.5 then degrees (arcsin u1) * (- 1) else degrees (arcsin u1)"
  let ?dist = "pow_third (pop_v_max p * u4 * (3 / (4 * pi)))"
  from collaborators_returnD(3)[OF assms(1)]
  obtain z w5 where i: "interpolate_z env ?dist ds zs (item (cosmo_pars cfg) 0) w4 = (Inr z, w5)"
    by blast
  from collaborators_returnD(4)[OF assms(1)]
  obtain xyz w6 where "lb_to_xyz env (u3 * 360) ?gb ?dist w5 = (Inr xyz, w6)"
    by blast
  then obtain gx gy gz where x: "lb_to_xyz env (u3 * 360) ?gb ?dist w5 = (Inr (gx, gy, gz), w6)"
    by (cases xyz) auto
  from collaborators_returnD(5)[OF assms(1)]
  obtain dm_mw w7 where m: "ne2001_dist_to_dm env ?dist (u3 * 360) ?gb w6 = (Inr dm_mw, w7)"
    by blast
  from collaborators_returnD(6)[OF assms(1)]
  obtain dm_igm w8 where g: "ioka_dm_igm env z w7 = (Inr dm_igm, w8)"
    by blast
  from collaborators_returnD(7)[OF assms(1)]
  obtain w_int w9 where
    p: "redshift_pulse env z (item (pulse cfg) 0) (item (pulse cfg) 1) w8 = (Inr w_int, w9)"
    by blast
  from collaborators_returnD(8)[OF assms(1)]
  obtain lum w10 where
    l: "powerlaw env (item (lum_dist_pars cfg) 0) (item (lum_dist_pars cfg) 1)
          (item (lum_dist_pars cfg) 2) w9 = (Inr lum, w10)"
    by blast
  show ?thesis
    unfolding sample_source_def
    by (simp only: Let_def prod.case sum.case r1 r2 r3 r4 a assms(3-) i x m g p l returns_Inr)
qed

lemma generate_returns:
  assumes v: "valid_config cfg" and c: "collaborators_return env cfg" and r: "random_contract env"
  shows "returns (generate env cfg w)"
proof -
  from collaborators_returnD(1)[OF c]
  obtain vm w1 where z: "z_to_v env (z_max cfg) w = (Inr vm, w1)"
    by blast
  from collaborators_returnD(2)[OF c]
  obtain t w2 where d: "dist_lookup env (cosmology cfg) (item (cosmo_pars cfg) 0)
      (item (cosmo_pars cfg) 1) (item (cosmo_pars cfg) 2) (z_max cfg) w1 = (Inr t, w2)"
    by blast
  obtain ds zs where t: "t = (ds, zs)" by (cases t)
  from z d t obtain pop0 where b: "before_loop env cfg w = (Inr (ds, zs, pop0), w2)"
    by (simp add: before_loop_valid[OF v])
  have "pop_H_0 pop0 = item (cosmo_pars cfg) 0"
    and "pop_w_min pop0 = item (pulse cfg) 0" and "pop_w_max pop0 = item (pulse cfg) 1"
    and "pop_lum_min pop0 = item (lum_dist_pars cfg) 0" and "pop_lum_max pop0 = item (lum_dist_pars cfg) 1"
    and "pop_lum_pow pop0 = item (lum_dist_pars cfg) 2"
    using b z d t by (auto simp: before_loop_valid[OF v])
  then have "\<And>w. returns (sample_source env ds zs pop0 w)"
    using sample_source_returns[OF c r] by blast
  then have "returns (sampling_loop env ds zs pop0 w2)" by (rule sampling_loop_returns)
  then show ?thesis using b by (simp add: generate_def)
qed

section \<open>Stopping, and a concrete run\<close>

lemma sampling_loop_stops_iff:
  "sampling_loop env ds zs p w = (Inr p, w) \<longleftrightarrow> \<not> pop_n_srcs p < pop_n_gen p"
proof
  assume "sampling_loop env ds zs p w = (Inr p, w)"
  with sampling_loop_loop_head[OF loop_head.entry, of env ds zs p w p w]
  show "\<not> pop_n_srcs p < pop_n_gen p" by simp
next
  assume "\<not> pop_n_srcs p < pop_n_gen p"
  then show "sampling_loop env ds zs p w = (Inr p, w)"
    by (simp add: sampling_loop.simps[of env ds zs p w])
qed

lemma valid_default: "1 \<le> n \<Longrightarrow> valid_config (default_config (PInt n))"
  by (simp add: valid_config_def default_config_def)

lemma fresh_test_env: "fresh_population_empty test_env"
  by (simp add: fresh_population_empty_def test_env_def)

lemma random_contract_test_env: "random_contract test_env"
  by (simp add: random_contract_def test_env_def)

lemma collaborators_return_test_env: "collaborators_return test_env (default_config n)"
  by (simp add: collaborators_return_def test_env_def default_config_def item_def)

section \<open>What a returned population holds\<close>

lemma generate_Inr_count:
  assumes "generate env cfg w = (Inr pop, w')" and "fresh_population_empty env"
  shows "pop_n_gen pop = int_of (n_gen cfg)"
    and "pop_n_srcs pop = int_of (n_gen cfg)"
    and "int (length (pop_sources pop)) = int_of (n_gen cfg)"
proof -
  from generate_Inr[OF assms(1)] obtain ds zs pop0 w0 where
    b: "before_loop env cfg w = (Inr (ds, zs, pop0), w0)"
    and l: "loop_head env ds zs pop0 w0 pop w'"
    and stop: "\<not> pop_n_srcs pop < pop_n_gen pop"
    by blast
  have "positive_int (n_gen cfg)" using before_loop_Inr(1)[OF b] by (simp add: valid_config_def)
  then have "0 \<le> int_of (n_gen cfg)" by (cases "n_gen cfg") auto
  then have "pop_n_srcs pop0 \<le> pop_n_gen pop0"
    using before_loop_Inr(2,3)[OF b] assms(2) by (simp add: fresh_population_empty_def)
  from loop_head_bound[OF l this] loop_head_n_gen[OF l]
  have le: "pop_n_srcs pop \<le> pop_n_gen pop" by simp
  show g: "pop_n_gen pop = int_of (n_gen cfg)"
    using loop_head_n_gen[OF l] before_loop_Inr(2)[OF b] by simp
  show n: "pop_n_srcs pop = int_of (n_gen cfg)" using le stop g by simp
  show "int (length (pop_sources pop)) = int_of (n_gen cfg)"
    using loop_head_count[OF l] before_loop_Inr(3,4)[OF b] assms(2) n
    by (simp add: fresh_population_empty_def)
qed

lemma generate_Inr_sources:
  assumes "generate env cfg w = (Inr pop, w')" and "fresh_population_empty env"
  shows "\<exists>ds zs pop0 w0. before_loop env cfg w = (Inr (ds, zs, pop0), w0) \<and>
           pop = pop0\<lparr>pop_n_srcs := pop_n_srcs pop, pop_sources := pop_sources pop\<rparr> \<and>
           (\<forall>s\<in>set (pop_sources pop). \<exists>wq wq'. sample_source env ds zs pop0 wq = (Inr s, wq'))"
proof -
  from generate_Inr[OF assms(1)] obtain ds zs pop0 w0 where
    b: "before_loop env cfg w = (Inr (ds, zs, pop0), w0)"
    and l: "loop_head env ds zs pop0 w0 pop w'"
    by blast
  have "pop_sources pop0 = []"
    using before_loop_Inr(4)[OF b] assms(2) by (simp add: fresh_population_empty_def)
  with loop_head_sources[OF l]
  have "\<forall>s\<in>set (pop_sources pop). \<exists>wq wq'. sample_source env ds zs pop0 wq = (Inr s, wq')"
    by auto
  with b loop_head_settings[OF l] show ?thesis by blast
qed

lemma test_env_run:
  assumes "1 \<le> n"
  shows "\<exists>pop w'. generate test_env (default_config (PInt n)) 0 = (Inr pop, w') \<and>
                   int (length (pop_sources pop)) = n"
proof -
  have "returns (generate test_env (default_config (PInt n)) 0)"
    using valid_default[OF assms] collaborators_return_test_env random_contract_test_env
    by (rule generate_returns)
  then obtain pop w' where g: "generate test_env (default_config (PInt n)) 0 = (Inr pop, w')"
    using returnsE by blast
  from generate_Inr_count(3)[OF g fresh_test_env] have "int (length (pop_sources pop)) = n"
    by (simp add: default_config_def)
  with g show ?thesis by blast
qed

section \<open>One pass through the body of the loop\<close>

lemma sample_source_Inr:
  assumes "sample_source env ds zs p w = (Inr s, w')"
    and r1: "random_random env w = (u1, w1)" and r2: "random_random env w1 = (u2, w2)"
    and r3: "random_random env w2 = (u3, w3)" and r4: "random_random env w3 = (u4, w4)"
  shows "src_gb s = (if u2 < 0.5 then degrees (arcsin u1) * (- 1) else degrees (arcsin u1))"
    and "src_gl s = u3 * 360"
    and "src_dist s = pow_third (pop_v_max p * u4 * (3 / (4 * pi)))"
    and "src_dm_host s = 100"
    and "src_dm s = src_dm_mw s + src_dm_igm s + src_dm_host s"
    and "src_si s = - 1.4"
    and "\<exists>w9. powerlaw env (pop_lum_min p) (pop_lum_max p) (pop_lum_pow p) w9
                 = (Inr (src_lum_bol s), w')"
  using assms(1) unfolding sample_source_def
  by (auto simp: r1 r2 r3 r4 Let_def math_asin_def split: prod.splits sum.splits if_splits)

lemma degrees_arcsin_range:
  assumes "0 \<le> u" and "u < 1"
  shows "0 \<le> degrees (arcsin u)" and "degrees (arcsin u) \<le> 90"
proof -
  have a0: "0 \<le> arcsin u" using assms by (intro arcsin_nonneg) simp
  have a1: "arcsin u \<le> pi / 2" using assms by (intro arcsin_ubound) simp_all
  show "0 \<le> degrees (arcsin u)" using a0 by (simp add: degrees_def)
  have "arcsin u * (180 / pi) \<le> (pi / 2) * (180 / pi)"
    using a1 by (intro mult_right_mono) simp_all
  then show "degrees (arcsin u) \<le> 90" by (simp add: degrees_def)
qed

lemma pow_third_nonneg: "0 \<le> x \<Longrightarrow> pow_third x = Flt (root 3 x)"
  by (cases "x = 0") (simp_all add: pow_third_def root_powr_inverse)

lemma generate_Inr_settings:
  assumes "generate env cfg w = (Inr pop, w')"
  shows "valid_config cfg"
    and "pop_name pop = (if falsy (name cfg) then PStr ''Initial'' else name cfg)"
    and "\<exists>w1. z_to_v env (z_max cfg) w = (Inr (pop_v_max pop), w1)"
    and "pop_lum_min pop = item (lum_dist_pars cfg) 0"
    and "pop_lum_max pop = item (lum_dist_pars cfg) 1"
    and "pop_si_mean pop = item (si_pars cfg) 0"
    and "pop_si_sigma pop = item (si_pars cfg) 1"
proof -
  from generate_Inr[OF assms] obtain ds zs pop0 w0 where
    b: "before_loop env cfg w = (Inr (ds, zs, pop0), w0)"
    and l: "loop_head env ds zs pop0 w0 pop w'"
    by blast
  note p = loop_head_settings[OF l]
  show "valid_config cfg" by (rule before_loop_Inr(1)[OF b])
  show "pop_name pop = (if falsy (name cfg) then PStr ''Initial'' else name cfg)"
    using arg_cong[OF p, where f = pop_name] before_loop_Inr(5)[OF b] by simp
  show "\<exists>w1. z_to_v env (z_max cfg) w = (Inr (pop_v_max pop), w1)"
    using arg_cong[OF p, where f = pop_v_max] before_loop_Inr(6)[OF b] by simp
  show "pop_lum_min pop = item (lum_dist_pars cfg) 0"
    using arg_cong[OF p, where f = pop_lum_min] before_loop_Inr(7)[OF b] by simp
  show "pop_lum_max pop = item (lum_dist_pars cfg) 1"
    using arg_cong[OF p, where f = pop_lum_max] before_loop_Inr(8)[OF b] by simp
  show "pop_si_mean pop = item (si_pars cfg) 0"
    using arg_cong[OF p, where f = pop_si_mean] before_loop_Inr(9)[OF b] by simp
  show "pop_si_sigma pop = item (si_pars cfg) 1"
    using arg_cong[OF p, where f = pop_si_sigma] before_loop_Inr(10)[OF b] by simp
qed

lemma sampling_loop_si:
  "sampling_loop env ds zs (p\<lparr>pop_si_mean := a, pop_si_sigma := b\<rparr>) w =
     (case sampling_loop env ds zs p w of
        (Inl e, w') \<Rightarrow> (Inl e, w')
      | (Inr q, w') \<Rightarrow> (Inr (q\<lparr>pop_si_mean := a, pop_si_sigma := b\<rparr>), w'))"
proof (induction env ds zs p w rule: sampling_loop.induct)
  case (1 env ds zs pop w)
  let ?pop = "pop\<lparr>pop_si_mean := a, pop_si_sigma := b\<rparr>"
  show ?case
  proof (cases "pop_n_srcs pop < pop_n_gen pop")
    case True
    show ?thesis
    proof (cases "sample_source env ds zs pop w")
      case (Pair r w1)
      show ?thesis
      proof (cases r)
        case (Inl e)
        with Pair True show ?thesis
          by (simp add: sampling_loop.simps[of env ds zs pop w] sampling_loop.simps[of env ds zs ?pop w])
      next
        case (Inr src)
        have "add_source ?pop src = (add_source pop src)\<lparr>pop_si_mean := a, pop_si_sigma := b\<rparr>"
          by (simp add: add_source_def)
        with "1.IH"[OF True Pair[symmetric] Inr] Pair Inr True show ?thesis
          by (simp add: sampling_loop.simps[of env ds zs pop w] sampling_loop.simps[of env ds zs ?pop w])
      qed
    qed
  next
    case False
    then show ?thesis
      by (simp add: sampling_loop.simps[of env ds zs pop w] sampling_loop.simps[of env ds zs ?pop w])
  qed
qed

lemma valid_config_si_pars:
  "valid_config cfg \<Longrightarrow> number_list 2 sp \<Longrightarrow> valid_config (cfg\<lparr>si_pars := sp\<rparr>)"
  by (simp add: valid_config_def)

lemma before_loop_si_pars:
  assumes "valid_config cfg" and "number_list 2 sp"
  shows "before_loop env (cfg\<lparr>si_pars := sp\<rparr>) w =
     (case before_loop env cfg w of
        (Inl e, w') \<Rightarrow> (Inl e, w')
      | (Inr (ds, zs, pop), w') \<Rightarrow>
          (Inr (ds, zs, pop\<lparr>pop_si_mean := item sp 0, pop_si_sigma := item sp 1\<rparr>), w'))"
  by (simp add: before_loop_valid[OF assms(1)] before_loop_valid[OF valid_config_si_pars[OF assms]]
      split: prod.splits sum.splits)

lemma generate_si_pars:
  assumes "valid_config cfg" and "number_list 2 sp"
  shows "generate env (cfg\<lparr>si_pars := sp\<rparr>) w =
     (case generate env cfg w of
        (Inl e, w') \<Rightarrow> (Inl e, w')
      | (Inr pop, w') \<Rightarrow> (Inr (pop\<lparr>pop_si_mean := item sp 0, pop_si_sigma := item sp 1\<rparr>), w'))"
proof (cases "before_loop env cfg w")
  case (Pair r w0)
  show ?thesis
  proof (cases r)
    case (Inl e)
    with Pair show ?thesis
      by (simp add: generate_def before_loop_si_pars[OF assms])
  next
    case (Inr t)
    obtain ds zs pop0 where t: "t = (ds, zs, pop0)" by (cases t)
    with Pair Inr show ?thesis
      by (simp add: generate_def before_loop_si_pars[OF assms] sampling_loop_si
          split: prod.splits sum.splits)
  qed
qed

lemma powerlaw_contract_test_env: "powerlaw_contract test_env"
  by (auto simp: powerlaw_contract_def test_env_def split: if_splits)

lemma generate_Inr_cosmology:
  assumes "generate env cfg w = (Inr pop, w')"
  shows "pop_H_0 pop = item (cosmo_pars cfg) 0"
    and "pop_W_m pop = item (cosmo_pars cfg) 1"
    and "pop_W_v pop = item (cosmo_pars cfg) 2"
proof -
  from generate_Inr[OF assms] obtain ds zs pop0 w0 where
    b: "before_loop env cfg w = (Inr (ds, zs, pop0), w0)"
    and l: "loop_head env ds zs pop0 w0 pop w'"
    by blast
  note p = loop_head_settings[OF l]
  note b' = b[unfolded before_loop_valid[OF before_loop_Inr(1)[OF b]]]
  have "pop_H_0 pop0 = item (cosmo_pars cfg) 0" "pop_W_m pop0 = item (cosmo_pars cfg) 1"
    "pop_W_v pop0 = item (cosmo_pars cfg) 2"
    using b' by (auto split: prod.splits sum.splits)
  then show "pop_H_0 pop = item (cosmo_pars cfg) 0" "pop_W_m pop = item (cosmo_pars cfg) 1"
    "pop_W_v pop = item (cosmo_pars cfg) 2"
    using arg_cong[OF p, where f = pop_H_0] arg_cong[OF p, where f = pop_W_m]
      arg_cong[OF p, where f = pop_W_v] by simp_all
qed



lemma before_loop_sample_source_returns:
  assumes b: "before_loop env cfg w = (Inr (ds, zs, pop0), w0)" and c: "collaborators_return env cfg"
    and r: "random_contract env"
  shows "returns (sample_source env ds zs pop0 w1)"
proof -
  note b' = b[unfolded before_loop_valid[OF before_loop_Inr(1)[OF b]]]
  have "pop_H_0 pop0 = item (cosmo_pars cfg) 0"
    and "pop_w_min pop0 = item (pulse cfg) 0" and "pop_w_max pop0 = item (pulse cfg) 1"
    and "pop_lum_min pop0 = item (lum_dist_pars cfg) 0" and "pop_lum_max pop0 = item (lum_dist_pars cfg) 1"
    and "pop_lum_pow pop0 = item (lum_dist_pars cfg) 2"
    using b' by (auto split: prod.splits sum.splits)
  then show ?thesis by (rule sample_source_returns[OF c r])
qed

section \<open>A run on concrete input\<close>

text \<open>One source from the default configuration, with the stand-in collaborators started in
  state 0: the draws are 2/3, 3/4, 4/5 and 5/6.\<close>

lemma sampling_loop_pass:
  "pop_n_srcs p < pop_n_gen p \<Longrightarrow> sample_source env ds zs p w = (Inr src, w') \<Longrightarrow>
   sampling_loop env ds zs p w = sampling_loop env ds zs (add_source p src) w'"
  by (simp add: sampling_loop.simps[of env ds zs p w])

lemma sampling_loop_stop:
  "\<not> pop_n_srcs p < pop_n_gen p \<Longrightarrow> sampling_loop env ds zs p w = (Inr p, w)"
  by (simp add: sampling_loop.simps[of env ds zs p w])

lemma pow_third_example: "pow_third ((5 / 2) ^ 3 * (5 / 6) * (3 / (4 * pi))) = Flt (root 3 (625 / (64 * pi)))"
proof -
  have "(5 / 2) ^ 3 * (5 / 6) * (3 / (4 * pi)) = 625 / (64 * pi)"
    by (simp add: power3_eq_cube)
  moreover have "0 \<le> 625 / (64 * pi)" by simp
  ultimately show ?thesis by (simp only: pow_third_nonneg)
qed

lemma generate_example:
  fixes d defines "d \<equiv> root 3 (625 / (64 * pi))"
  shows "generate test_env (default_config (PInt 1)) 0 =
    (Inr \<lparr> pop_name = PStr ''Initial'', pop_n_gen = 1, pop_electron_model = PStr ''ne2001'',
            pop_cosmology = PBool True, pop_H_0 = PFloat 69.6, pop_W_m = PFloat 0.286,
            pop_W_v = PFloat 0.714, pop_z_max = PFloat 2.5, pop_v_max = (5 / 2) ^ 3,
            pop_lum_min = PFloat (10 ^ 40), pop_lum_max = PFloat (10 ^ 50), pop_lum_pow = PInt 1,
            pop_w_min = PFloat 0.1, pop_w_max = PInt 5,
            pop_f_min = PFloat (10 * 10 ^ 6), pop_f_max = PFloat (10 * 10 ^ 9),
            pop_si_mean = PInt 1, pop_si_sigma = PInt 1, pop_n_srcs = 1,
            pop_sources =
              [\<lparr> src_gb = degrees (arcsin (2 / 3)), src_gl = 288, src_dist = Flt d, src_z = d,
                  src_gx = 0, src_gy = 0, src_gz = 0, src_dm_mw = 30, src_dm_igm = 1200 * d,
                  src_dm_host = 100, src_dm = 30 + 1200 * d + 100, src_w_int = 0.1 * (1 + d),
                  src_lum_bol = 10 ^ 40, src_si = - 1.4 \<rparr>] \<rparr>,
     12)"
proof -
  let ?pop0 = "\<lparr> pop_name = PStr ''Initial'', pop_n_gen = 1, pop_electron_model = PStr ''ne2001'',
            pop_cosmology = PBool True, pop_H_0 = PFloat 69.6, pop_W_m = PFloat 0.286,
            pop_W_v = PFloat 0.714, pop_z_max = PFloat 2.5, pop_v_max = (5 / 2) ^ 3,
            pop_lum_min = PFloat (10 ^ 40), pop_lum_max = PFloat (10 ^ 50), pop_lum_pow = PInt 1,
            pop_w_min = PFloat 0.1, pop_w_max = PInt 5,
            pop_f_min = PFloat (10 * 10 ^ 6), pop_f_max = PFloat (10 * 10 ^ 9),
            pop_si_mean = PInt 1, pop_si_sigma = PInt 1, pop_n_srcs = 0,
            pop_sources = [] \<rparr>"
  let ?src = "\<lparr> src_gb = degrees (arcsin (2 / 3)), src_gl = 288, src_dist = Flt d, src_z = d,
                  src_gx = 0, src_gy = 0, src_gz = 0, src_dm_mw = 30, src_dm_igm = 1200 * d,
                  src_dm_host = 100, src_dm = 30 + 1200 * d + 100, src_w_int = 0.1 * (1 + d),
                  src_lum_bol = 10 ^ 40, src_si = - 1.4 \<rparr>"
  have b: "before_loop test_env (default_config (PInt 1)) 0 = (Inr ([0, 5 / 2], [0, 5 / 2], ?pop0), 2)"
    by (simp add: before_loop_valid valid_default)
       (simp add: test_env_def default_config_def item_def)
  have r: "random_random test_env 2 = (2 / 3, 3)" "random_random test_env 3 = (3 / 4, 4)"
    "random_random test_env 4 = (4 / 5, 5)" "random_random test_env 5 = (5 / 6, 6)"
    by (simp_all add: test_env_def)
  have a: "math_asin (2 / 3) = Inr (arcsin (2 / 3))" by (simp add: math_asin_def)
  have s: "sample_source test_env [0, 5 / 2] [0, 5 / 2] ?pop0 2 = (Inr ?src, 12)"
    unfolding sample_source_def
    apply (simp only: r prod.case Let_def a sum.case population.simps pow_third_example)
    apply (simp add: test_env_def d_def)
    done
  have "sampling_loop test_env [0, 5 / 2] [0, 5 / 2] ?pop0 2 =
        sampling_loop test_env [0, 5 / 2] [0, 5 / 2] (add_source ?pop0 ?src) 12"
    by (rule sampling_loop_pass[OF _ s]) simp
  also have "\<dots> = (Inr (add_source ?pop0 ?src), 12)"
    by (rule sampling_loop_stop) (simp add: add_source_def)
  finally show ?thesis
    unfolding generate_def b by (simp add: add_source_def)
qed

section \<open>Passes of the loop, head by head\<close>

lemma random_contract_flip_env: "random_contract flip_env"
  by (simp add: random_contract_def flip_env_def test_env_def)

lemma collaborators_return_flip_env: "collaborators_return flip_env (default_config n)"
  by (simp add: collaborators_return_def flip_env_def test_env_def default_config_def item_def)

lemma sample_source_Inr_first_call:
  assumes "sample_source env ds zs p w = (Inr s, w')"
    and r1: "random_random env w = (u1, w1)" and r2: "random_random env w1 = (u2, w2)"
    and r3: "random_random env w2 = (u3, w3)" and r4: "random_random env w3 = (u4, w4)"
  shows "- 1 \<le> u1 \<and> u1 \<le> 1"
    and "\<exists>w5. interpolate_z env (src_dist s) ds zs (pop_H_0 p) w4 = (Inr (src_z s), w5)"
  using assms(1) unfolding sample_source_def
  by (auto simp: r1 r2 r3 r4 Let_def math_asin_def split: prod.splits sum.splits if_splits)

lemma loop_head_sample_source:
  assumes "loop_head env ds zs pop0 w0 p w"
  shows "sample_source env ds zs p w1 = sample_source env ds zs pop0 w1"
proof -
  have "p = pop0\<lparr>pop_n_srcs := pop_n_srcs p, pop_sources := pop_sources p\<rparr>"
    using assms by (rule loop_head_settings)
  then show ?thesis by (metis sample_source_sources sample_source_n_srcs)
qed

lemma loop_head_passes:
  "loop_head env ds zs pop0 w0 p w \<Longrightarrow>
   \<exists>new. pop_sources p = pop_sources pop0 @ new \<and>
         (\<forall>s\<in>set new. \<exists>q wq wq'.
            loop_head env ds zs pop0 w0 q wq \<and> pop_n_srcs q < pop_n_gen q \<and>
            sample_source env ds zs q wq = (Inr s, wq') \<and>
            loop_head env ds zs pop0 w0 (add_source q s) wq')"
proof (induction rule: loop_head.induct)
  case entry
  show ?case by simp
next
  case (pass pop w src w')
  from pass.IH obtain new where n: "pop_sources pop = pop_sources pop0 @ new"
    and a: "\<forall>s\<in>set new. \<exists>q wq wq'.
            loop_head env ds zs pop0 w0 q wq \<and> pop_n_srcs q < pop_n_gen q \<and>
            sample_source env ds zs q wq = (Inr s, wq') \<and>
            loop_head env ds zs pop0 w0 (add_source q s) wq'"
    by blast
  have "loop_head env ds zs pop0 w0 (add_source pop src) w'"
    using pass.hyps by (rule loop_head.pass)
  with pass.hyps have "\<exists>q wq wq'.
            loop_head env ds zs pop0 w0 q wq \<and> pop_n_srcs q < pop_n_gen q \<and>
            sample_source env ds zs q wq = (Inr src, wq') \<and>
            loop_head env ds zs pop0 w0 (add_source q src) wq'"
    by blast
  with a have "\<forall>s\<in>set (new @ [src]). \<exists>q wq wq'.
            loop_head env ds zs pop0 w0 q wq \<and> pop_n_srcs q < pop_n_gen q \<and>
            sample_source env ds zs q wq = (Inr s, wq') \<and>
            loop_head env ds zs pop0 w0 (add_source q s) wq'"
    by auto
  moreover have "pop_sources (add_source pop src) = pop_sources pop0 @ (new @ [src])"
    using n by (simp add: add_source_def)
  ultimately show ?case by blast
qed

lemma pow_third_neg:
  "x < 0 \<Longrightarrow> pow_third x =
     Cpx (Complex ((- x) powr (1 / 3) * cos (pi * (1 / 3))) ((- x) powr (1 / 3) * sin (pi * (1 / 3))))"
  unfolding pow_third_def by (simp only: if_True)

section \<open>Claims\<close>

text \<open>
  Claim C1. For every valid configuration, \<^verbatim>\<open>generate\<close> returns a population that
  holds exactly \<^verbatim>\<open>n_gen\<close> sources, with \<^verbatim>\<open>n_srcs == n_gen\<close>; at every head of the
  loop \<^verbatim>\<open>n_srcs\<close> is at most \<^verbatim>\<open>n_gen\<close>, and the loop stops at a head exactly when
  \<^verbatim>\<open>n_srcs == n_gen\<close>. A fresh population is taken to be empty, and the call returns
  when no collaborator raises and the uniform draws lie in \<open>[0, 1)\<close>.
\<close>

theorem generate_exact_count:
  assumes "valid_config cfg" and "fresh_population_empty env"
  shows "(collaborators_return env cfg \<and> random_contract env \<longrightarrow>
            (\<exists>pop w'. generate env cfg w = (Inr pop, w')))
       \<and> (\<forall>pop w'. generate env cfg w = (Inr pop, w') \<longrightarrow>
              pop_n_gen pop = int_of (n_gen cfg) \<and>
              pop_n_srcs pop = pop_n_gen pop \<and>
              int (length (pop_sources pop)) = pop_n_gen pop)
       \<and> (\<forall>ds zs pop0 w0 p w1.
              before_loop env cfg w = (Inr (ds, zs, pop0), w0) \<longrightarrow>
              loop_head env ds zs pop0 w0 p w1 \<longrightarrow>
              pop_n_srcs p \<le> pop_n_gen p \<and>
              (sampling_loop env ds zs p w1 = (Inr p, w1) \<longleftrightarrow> pop_n_srcs p = pop_n_gen p))"
proof (intro conjI allI impI)
  assume "collaborators_return env cfg \<and> random_contract env"
  with assms(1) have "returns (generate env cfg w)" by (simp add: generate_returns)
  then show "\<exists>pop w'. generate env cfg w = (Inr pop, w')" by (rule returnsE)
next
  fix ds zs pop0 w0 p w1
  assume b: "before_loop env cfg w = (Inr (ds, zs, pop0), w0)"
    and l: "loop_head env ds zs pop0 w0 p w1"
  have pos: "positive_int (n_gen cfg)" using assms(1) by (simp add: valid_config_def)
  then have "0 \<le> int_of (n_gen cfg)" by (cases "n_gen cfg") auto
  then have "pop_n_srcs pop0 \<le> pop_n_gen pop0"
    using before_loop_Inr(2,3)[OF b] assms(2) by (simp add: fresh_population_empty_def)
  from loop_head_bound[OF l this] loop_head_n_gen[OF l]
  show le: "pop_n_srcs p \<le> pop_n_gen p" by simp
  show "sampling_loop env ds zs p w1 = (Inr p, w1) \<longleftrightarrow> pop_n_srcs p = pop_n_gen p"
    using le by (auto simp: sampling_loop_stops_iff)
next
  fix pop w'
  assume g: "generate env cfg w = (Inr pop, w')"
  note c = generate_Inr_count[OF g assms(2)]
  show "pop_n_gen pop = int_of (n_gen cfg)" by (rule c(1))
  show "pop_n_srcs pop = pop_n_gen pop" using c by simp
  show "int (length (pop_sources pop)) = pop_n_gen pop" using c by simp
qed

theorem generate_exact_count_witness:
  "valid_config (default_config (PInt 2)) \<and> fresh_population_empty test_env \<and>
   collaborators_return test_env (default_config (PInt 2)) \<and> random_contract test_env \<and>
   (\<exists>ds zs pop0 w0 pop w'.
      before_loop test_env (default_config (PInt 2)) 0 = (Inr (ds, zs, pop0), w0) \<and>
      loop_head test_env ds zs pop0 w0 pop w' \<and>
      generate test_env (default_config (PInt 2)) 0 = (Inr pop, w') \<and>
      pop_n_srcs pop \<le> pop_n_gen pop \<and>
      sampling_loop test_env ds zs pop w' = (Inr pop, w') \<and>
      pop_n_srcs pop = 2 \<and> length (pop_sources pop) = 2)"
proof -
  let ?cfg = "default_config (PInt 2)"
  have v: "valid_config ?cfg" by (simp add: valid_default)
  have f: "fresh_population_empty test_env" by (rule fresh_test_env)
  have c: "collaborators_return test_env ?cfg" by (rule collaborators_return_test_env)
  have r: "random_contract test_env" by (rule random_contract_test_env)
  note t = generate_exact_count[OF v f, of 0]
  from t c r obtain pop w' where g: "generate test_env ?cfg 0 = (Inr pop, w')" by blast
  from generate_Inr[OF g] obtain ds zs pop0 w0 where
    b: "before_loop test_env ?cfg 0 = (Inr (ds, zs, pop0), w0)"
    and l: "loop_head test_env ds zs pop0 w0 pop w'"
    by blast
  from t g have n: "pop_n_srcs pop = pop_n_gen pop" "pop_n_gen pop = int_of (n_gen ?cfg)"
    "int (length (pop_sources pop)) = pop_n_gen pop" by blast+
  from t b l have "pop_n_srcs pop \<le> pop_n_gen pop"
    and "sampling_loop test_env ds zs pop w' = (Inr pop, w') \<longleftrightarrow> pop_n_srcs pop = pop_n_gen pop"
    by blast+
  moreover have "int_of (n_gen ?cfg) = 2" by (simp add: default_config_def)
  ultimately show ?thesis using v f c r g b l n by auto
qed

text \<open>
  Claim C2. For every generated source, \<^verbatim>\<open>dm == dm_mw + dm_igm + dm_host\<close>, and
  \<^verbatim>\<open>dm_host\<close> is the constant 100 whatever the configuration is.
\<close>

theorem dm_is_sum_of_contributions:
  assumes "generate env cfg w = (Inr pop, w')" and "fresh_population_empty env"
  shows "\<forall>s\<in>set (pop_sources pop).
           src_dm s = src_dm_mw s + src_dm_igm s + src_dm_host s \<and> src_dm_host s = 100"
proof
  fix s assume "s \<in> set (pop_sources pop)"
  with generate_Inr_sources[OF assms] obtain ds zs pop0 wq wq'
    where q: "sample_source env ds zs pop0 wq = (Inr s, wq')" by blast
  obtain u1 w1 where r1: "random_random env wq = (u1, w1)" by (cases "random_random env wq")
  obtain u2 w2 where r2: "random_random env w1 = (u2, w2)" by (cases "random_random env w1")
  obtain u3 w3 where r3: "random_random env w2 = (u3, w3)" by (cases "random_random env w2")
  obtain u4 w4 where r4: "random_random env w3 = (u4, w4)" by (cases "random_random env w3")
  from sample_source_Inr(4,5)[OF q r1 r2 r3 r4]
  show "src_dm s = src_dm_mw s + src_dm_igm s + src_dm_host s \<and> src_dm_host s = 100" by simp
qed

theorem dm_is_sum_of_contributions_witness:
  "fresh_population_empty test_env \<and>
   (\<exists>pop w'. generate test_env (default_config (PInt 3)) 0 = (Inr pop, w') \<and>
      length (pop_sources pop) = 3 \<and>
      list_all (\<lambda>s. src_dm s = src_dm_mw s + src_dm_igm s + src_dm_host s \<and> src_dm_host s = 100)
        (pop_sources pop))"
proof -
  from test_env_run[of 3] obtain pop w' where
    g: "generate test_env (default_config (PInt 3)) 0 = (Inr pop, w')"
    and n: "int (length (pop_sources pop)) = 3" by auto
  from dm_is_sum_of_contributions[OF g fresh_test_env] n g fresh_test_env
  show ?thesis by (auto simp: list_all_iff)
qed

text \<open>
  Claim C3 (the code departs from it). The stored \<^verbatim>\<open>v_max\<close> is the value of
  \<^verbatim>\<open>go.z_to_v(z_max)\<close>, a call that is given the maximum redshift and none of the
  cosmology parameters. Two runs that differ only in \<^verbatim>\<open>cosmo_pars\<close>, with the same
  collaborators in the same hidden state, store the same \<^verbatim>\<open>v_max\<close>, while the
  parameters they store and build the lookup table from are the supplied ones.
\<close>

theorem v_max_ignores_cosmo_pars:
  assumes "generate env cfg w = (Inr pop, w1)"
    and "generate env (cfg\<lparr>cosmo_pars := cp\<rparr>) w = (Inr pop', w1')"
  shows "pop_v_max pop' = pop_v_max pop \<and>
         (\<exists>w2. z_to_v env (z_max cfg) w = (Inr (pop_v_max pop), w2)) \<and>
         pop_H_0 pop = item (cosmo_pars cfg) 0 \<and> pop_W_m pop = item (cosmo_pars cfg) 1 \<and>
         pop_W_v pop = item (cosmo_pars cfg) 2 \<and>
         pop_H_0 pop' = item cp 0 \<and> pop_W_m pop' = item cp 1 \<and> pop_W_v pop' = item cp 2"
proof -
  from generate_Inr_settings(3)[OF assms(1)] obtain w2 where
    a: "z_to_v env (z_max cfg) w = (Inr (pop_v_max pop), w2)" by blast
  from generate_Inr_settings(3)[OF assms(2)] obtain w2' where
    b: "z_to_v env (z_max cfg) w = (Inr (pop_v_max pop'), w2')" by auto
  from a b have "pop_v_max pop' = pop_v_max pop" by simp
  with a generate_Inr_cosmology[OF assms(1)] generate_Inr_cosmology[OF assms(2)]
  show ?thesis by auto
qed

theorem v_max_ignores_cosmo_pars_witness:
  "\<exists>pop pop' w1 w1'.
     generate test_env (default_config (PInt 1)) 0 = (Inr pop, w1) \<and>
     generate test_env ((default_config (PInt 1))\<lparr>cosmo_pars := PList [PInt 50, PInt 1, PInt 0]\<rparr>) 0
       = (Inr pop', w1') \<and>
     pop_H_0 pop = PFloat 69.6 \<and> pop_H_0 pop' = PInt 50 \<and>
     pop_v_max pop' = pop_v_max pop \<and> pop_v_max pop = (5 / 2) ^ 3"
proof -
  let ?cfg = "default_config (PInt 1)" and ?cp = "PList [PInt 50, PInt 1, PInt 0]"
  from test_env_run[of 1] obtain pop w1 where g: "generate test_env ?cfg 0 = (Inr pop, w1)"
    by auto
  have v: "valid_config (?cfg\<lparr>cosmo_pars := ?cp\<rparr>)"
    by (simp add: valid_config_def default_config_def)
  have c: "collaborators_return test_env (?cfg\<lparr>cosmo_pars := ?cp\<rparr>)"
    by (simp add: collaborators_return_def test_env_def default_config_def item_def)
  from generate_returns[OF v c random_contract_test_env, of 0] obtain pop' w1' where
    g': "generate test_env (?cfg\<lparr>cosmo_pars := ?cp\<rparr>) 0 = (Inr pop', w1')"
    using returnsE by blast
  note t = v_max_ignores_cosmo_pars[OF g g']
  have "item (cosmo_pars ?cfg) 0 = PFloat 69.6" "item ?cp 0 = PInt 50"
    by (simp_all add: item_def default_config_def)
  moreover from t have "pop_v_max pop = (5 / 2) ^ 3"
    by (auto simp: test_env_def default_config_def split: if_splits)
  ultimately show ?thesis using t g g' by auto
qed

text \<open>
  Claim C4. In every pass of the loop that completes, the geometric attributes of the source
  follow the closed forms, read on the four draws that \<^verbatim>\<open>random.random()\<close> yields,
  one after the other, from the state at the head of the loop:
  \<^verbatim>\<open>gb = degrees(asin(U))\<close>, that is \<open>asin(U) * 180 / pi\<close>, for the first draw,
  negated exactly when the second draw is below 0.5; \<^verbatim>\<open>gl = 360 * U\<close> for the third;
  \<^verbatim>\<open>dist = (v_max * U * 3/(4*pi)) ** (1/3)\<close> for the fourth, which is the real cube
  root when the volume is not negative, with \<^verbatim>\<open>v_max\<close> the value of
  \<^verbatim>\<open>go.z_to_v(z_max)\<close>. The next call, \<^verbatim>\<open>go.interpolate_z\<close>, is made in the state
  the fourth draw left: no draw is tested, rejected or repeated, and a pass completes whenever
  the collaborators return and the draws lie in \<open>[0, 1)\<close>. Then \<^verbatim>\<open>gb\<close> lies in
  \<open>[-90, 90]\<close> and \<^verbatim>\<open>gl\<close> in \<open>[0, 360)\<close>. Every source of a returned population is
  the source of one such pass.
\<close>

theorem geometric_draws_closed_form:
  assumes "before_loop env cfg w = (Inr (ds, zs, pop0), w0)"
  shows "(\<forall>p wq s wq' u1 w1 u2 w2 u3 w3 u4 w4.
            loop_head env ds zs pop0 w0 p wq \<longrightarrow>
            sample_source env ds zs p wq = (Inr s, wq') \<longrightarrow>
            random_random env wq = (u1, w1) \<longrightarrow> random_random env w1 = (u2, w2) \<longrightarrow>
            random_random env w2 = (u3, w3) \<longrightarrow> random_random env w3 = (u4, w4) \<longrightarrow>
              src_gb s = (if u2 < 0.5 then arcsin u1 * (180 / pi) * (- 1)
                          else arcsin u1 * (180 / pi)) \<and>
              src_gl s = u3 * 360 \<and>
              (0 \<le> pop_v_max pop0 * u4 * (3 / (4 * pi)) \<longrightarrow>
                 src_dist s = Flt (root 3 (pop_v_max pop0 * u4 * (3 / (4 * pi))))) \<and>
              (pop_v_max pop0 * u4 * (3 / (4 * pi)) < 0 \<longrightarrow>
                 src_dist s =
                   Cpx (Complex
                     ((- (pop_v_max pop0 * u4 * (3 / (4 * pi)))) powr (1 / 3) * cos (pi * (1 / 3)))
                     ((- (pop_v_max pop0 * u4 * (3 / (4 * pi)))) powr (1 / 3) * sin (pi * (1 / 3))))) \<and>
              (\<exists>w5. interpolate_z env (src_dist s) ds zs (pop_H_0 p) w4 = (Inr (src_z s), w5)) \<and>
              pop_v_max p = pop_v_max pop0 \<and>
              (random_contract env \<longrightarrow>
                 - 90 \<le> src_gb s \<and> src_gb s \<le> 90 \<and> 0 \<le> src_gl s \<and> src_gl s < 360))
       \<and> (\<exists>w1. z_to_v env (z_max cfg) w = (Inr (pop_v_max pop0), w1))
       \<and> (collaborators_return env cfg \<and> random_contract env \<longrightarrow>
            (\<forall>p wq. loop_head env ds zs pop0 w0 p wq \<longrightarrow>
               (\<exists>s wq'. sample_source env ds zs p wq = (Inr s, wq'))))
       \<and> (\<forall>pop w'. generate env cfg w = (Inr pop, w') \<longrightarrow> fresh_population_empty env \<longrightarrow>
            pop_v_max pop = pop_v_max pop0 \<and>
            (\<forall>s\<in>set (pop_sources pop). \<exists>p wq wq'.
               loop_head env ds zs pop0 w0 p wq \<and> pop_n_srcs p < pop_n_gen p \<and>
               sample_source env ds zs p wq = (Inr s, wq') \<and>
               loop_head env ds zs pop0 w0 (add_source p s) wq'))"
proof (intro conjI)
  show "\<exists>w1. z_to_v env (z_max cfg) w = (Inr (pop_v_max pop0), w1)"
    by (rule before_loop_Inr(6)[OF assms])
next
  show "collaborators_return env cfg \<and> random_contract env \<longrightarrow>
            (\<forall>p wq. loop_head env ds zs pop0 w0 p wq \<longrightarrow>
               (\<exists>s wq'. sample_source env ds zs p wq = (Inr s, wq')))"
  proof (intro impI allI)
    fix p wq
    assume c: "collaborators_return env cfg \<and> random_contract env"
      and l: "loop_head env ds zs pop0 w0 p wq"
    from c have "returns (sample_source env ds zs pop0 wq)"
      by (simp add: before_loop_sample_source_returns[OF assms])
    then have "returns (sample_source env ds zs p wq)"
      by (simp only: loop_head_sample_source[OF l])
    then show "\<exists>s wq'. sample_source env ds zs p wq = (Inr s, wq')" by (rule returnsE)
  qed
next
  show "\<forall>pop w'. generate env cfg w = (Inr pop, w') \<longrightarrow> fresh_population_empty env \<longrightarrow>
            pop_v_max pop = pop_v_max pop0 \<and>
            (\<forall>s\<in>set (pop_sources pop). \<exists>p wq wq'.
               loop_head env ds zs pop0 w0 p wq \<and> pop_n_srcs p < pop_n_gen p \<and>
               sample_source env ds zs p wq = (Inr s, wq') \<and>
               loop_head env ds zs pop0 w0 (add_source p s) wq')"
  proof (intro allI impI)
    fix pop w'
    assume g: "generate env cfg w = (Inr pop, w')" and f: "fresh_population_empty env"
    from g have sl: "sampling_loop env ds zs pop0 w0 = (Inr pop, w')"
      by (simp add: generate_def assms)
    have l: "loop_head env ds zs pop0 w0 pop w'"
      using sampling_loop_loop_head[OF loop_head.entry sl] by simp
    have e: "pop_sources pop0 = []"
      using before_loop_Inr(4)[OF assms] f by (simp add: fresh_population_empty_def)
    from arg_cong[OF loop_head_settings[OF l], where f = pop_v_max]
    have "pop_v_max pop = pop_v_max pop0" by simp
    moreover from loop_head_passes[OF l] e
    have "\<forall>s\<in>set (pop_sources pop). \<exists>p wq wq'.
               loop_head env ds zs pop0 w0 p wq \<and> pop_n_srcs p < pop_n_gen p \<and>
               sample_source env ds zs p wq = (Inr s, wq') \<and>
               loop_head env ds zs pop0 w0 (add_source p s) wq'"
      by simp
    ultimately show "pop_v_max pop = pop_v_max pop0 \<and>
            (\<forall>s\<in>set (pop_sources pop). \<exists>p wq wq'.
               loop_head env ds zs pop0 w0 p wq \<and> pop_n_srcs p < pop_n_gen p \<and>
               sample_source env ds zs p wq = (Inr s, wq') \<and>
               loop_head env ds zs pop0 w0 (add_source p s) wq')"
      by simp
  qed
next
  show "\<forall>p wq s wq' u1 w1 u2 w2 u3 w3 u4 w4.
            loop_head env ds zs pop0 w0 p wq \<longrightarrow>
            sample_source env ds zs p wq = (Inr s, wq') \<longrightarrow>
            random_random env wq = (u1, w1) \<longrightarrow> random_random env w1 = (u2, w2) \<longrightarrow>
            random_random env w2 = (u3, w3) \<longrightarrow> random_random env w3 = (u4, w4) \<longrightarrow>
              src_gb s = (if u2 < 0.5 then arcsin u1 * (180 / pi) * (- 1)
                          else arcsin u1 * (180 / pi)) \<and>
              src_gl s = u3 * 360 \<and>
              (0 \<le> pop_v_max pop0 * u4 * (3 / (4 * pi)) \<longrightarrow>
                 src_dist s = Flt (root 3 (pop_v_max pop0 * u4 * (3 / (4 * pi))))) \<and>
              (pop_v_max pop0 * u4 * (3 / (4 * pi)) < 0 \<longrightarrow>
                 src_dist s =
                   Cpx (Complex
                     ((- (pop_v_max pop0 * u4 * (3 / (4 * pi)))) powr (1 / 3) * cos (pi * (1 / 3)))
                     ((- (pop_v_max pop0 * u4 * (3 / (4 * pi)))) powr (1 / 3) * sin (pi * (1 / 3))))) \<and>
              (\<exists>w5. interpolate_z env (src_dist s) ds zs (pop_H_0 p) w4 = (Inr (src_z s), w5)) \<and>
              pop_v_max p = pop_v_max pop0 \<and>
              (random_contract env \<longrightarrow>
                 - 90 \<le> src_gb s \<and> src_gb s \<le> 90 \<and> 0 \<le> src_gl s \<and> src_gl s < 360)"
  proof (intro allI impI)
    fix p wq s wq' u1 w1 u2 w2 u3 w3 u4 w4
    assume l: "loop_head env ds zs pop0 w0 p wq"
      and q: "sample_source env ds zs p wq = (Inr s, wq')"
      and r1: "random_random env wq = (u1, w1)" and r2: "random_random env w1 = (u2, w2)"
      and r3: "random_random env w2 = (u3, w3)" and r4: "random_random env w3 = (u4, w4)"
    from arg_cong[OF loop_head_settings[OF l], where f = pop_v_max]
    have v: "pop_v_max p = pop_v_max pop0" by simp
    note f = sample_source_Inr(1-3)[OF q r1 r2 r3 r4, unfolded v degrees_def]
    note n = sample_source_Inr_first_call(2)[OF q r1 r2 r3 r4]
    have pos: "src_dist s = Flt (root 3 (pop_v_max pop0 * u4 * (3 / (4 * pi))))"
      if "0 \<le> pop_v_max pop0 * u4 * (3 / (4 * pi))"
      using that f(3) by (simp only: pow_third_nonneg)
    have neg: "src_dist s =
                   Cpx (Complex
                     ((- (pop_v_max pop0 * u4 * (3 / (4 * pi)))) powr (1 / 3) * cos (pi * (1 / 3)))
                     ((- (pop_v_max pop0 * u4 * (3 / (4 * pi)))) powr (1 / 3) * sin (pi * (1 / 3))))"
      if "pop_v_max pop0 * u4 * (3 / (4 * pi)) < 0"
      using that f(3) by (simp only: pow_third_neg)
    have range: "- 90 \<le> src_gb s \<and> src_gb s \<le> 90 \<and> 0 \<le> src_gl s \<and> src_gl s < 360"
      if c: "random_contract env"
    proof -
      have u1: "0 \<le> u1" "u1 < 1" using c r1 unfolding random_contract_def by (metis fst_conv)+
      have u3: "0 \<le> u3" "u3 < 1" using c r3 unfolding random_contract_def by (metis fst_conv)+
      from degrees_arcsin_range[OF u1, unfolded degrees_def] f(1)
      have "- 90 \<le> src_gb s \<and> src_gb s \<le> 90"
        by (simp split: if_splits)
      moreover from u3 f(2) have "0 \<le> src_gl s \<and> src_gl s < 360" by simp
      ultimately show ?thesis by simp
    qed
    show "src_gb s = (if u2 < 0.5 then arcsin u1 * (180 / pi) * (- 1)
                          else arcsin u1 * (180 / pi)) \<and>
              src_gl s = u3 * 360 \<and>
              (0 \<le> pop_v_max pop0 * u4 * (3 / (4 * pi)) \<longrightarrow>
                 src_dist s = Flt (root 3 (pop_v_max pop0 * u4 * (3 / (4 * pi))))) \<and>
              (pop_v_max pop0 * u4 * (3 / (4 * pi)) < 0 \<longrightarrow>
                 src_dist s =
                   Cpx (Complex
                     ((- (pop_v_max pop0 * u4 * (3 / (4 * pi)))) powr (1 / 3) * cos (pi * (1 / 3)))
                     ((- (pop_v_max pop0 * u4 * (3 / (4 * pi)))) powr (1 / 3) * sin (pi * (1 / 3))))) \<and>
              (\<exists>w5. interpolate_z env (src_dist s) ds zs (pop_H_0 p) w4 = (Inr (src_z s), w5)) \<and>
              pop_v_max p = pop_v_max pop0 \<and>
              (random_contract env \<longrightarrow>
                 - 90 \<le> src_gb s \<and> src_gb s \<le> 90 \<and> 0 \<le> src_gl s \<and> src_gl s < 360)"
      using f(1,2) pos neg n v range by blast
  qed
qed

theorem geometric_draws_closed_form_witness:
  "random_contract flip_env \<and> collaborators_return flip_env (default_config (PInt 1)) \<and>
   fresh_population_empty flip_env \<and>
   random_random flip_env 2 = (1 / 4, 3) \<and> random_random flip_env 3 = (1 / 5, 4) \<and>
   random_random flip_env 4 = (1 / 6, 5) \<and> random_random flip_env 5 = (1 / 7, 6) \<and>
   (\<exists>ds zs pop0 s wq' pop.
      before_loop flip_env (default_config (PInt 1)) 0 = (Inr (ds, zs, pop0), 2) \<and>
      loop_head flip_env ds zs pop0 2 pop0 2 \<and>
      sample_source flip_env ds zs pop0 2 = (Inr s, wq') \<and>
      pop_v_max pop0 = (5 / 2) ^ 3 \<and>
      src_gb s = - (arcsin (1 / 4) * (180 / pi)) \<and> src_gb s < 0 \<and> - 90 \<le> src_gb s \<and>
      src_gl s = 60 \<and>
      src_dist s = Flt (root 3 ((5 / 2) ^ 3 * (1 / 7) * (3 / (4 * pi)))) \<and>
      generate flip_env (default_config (PInt 1)) 0 = (Inr pop, wq') \<and>
      pop_sources pop = [s])"
proof -
  let ?cfg = "default_config (PInt 1)"
  let ?ds = "[0, 5 / 2 :: real]"
  let ?pop0 = "\<lparr> pop_name = PStr ''Initial'', pop_n_gen = 1, pop_electron_model = PStr ''ne2001'',
            pop_cosmology = PBool True, pop_H_0 = PFloat 69.6, pop_W_m = PFloat 0.286,
            pop_W_v = PFloat 0.714, pop_z_max = PFloat 2.5, pop_v_max = (5 / 2) ^ 3,
            pop_lum_min = PFloat (10 ^ 40), pop_lum_max = PFloat (10 ^ 50), pop_lum_pow = PInt 1,
            pop_w_min = PFloat 0.1, pop_w_max = PInt 5,
            pop_f_min = PFloat (10 * 10 ^ 6), pop_f_max = PFloat (10 * 10 ^ 9),
            pop_si_mean = PInt 1, pop_si_sigma = PInt 1, pop_n_srcs = 0,
            pop_sources = [] \<rparr>"
  have rc: "random_contract flip_env" by (rule random_contract_flip_env)
  have cr: "collaborators_return flip_env ?cfg" by (rule collaborators_return_flip_env)
  have fr: "fresh_population_empty flip_env"
    by (simp add: fresh_population_empty_def flip_env_def test_env_def)
  have b: "before_loop flip_env ?cfg 0 = (Inr (?ds, ?ds, ?pop0), 2)"
    by (simp add: before_loop_valid valid_default)
       (simp add: flip_env_def test_env_def default_config_def item_def)
  have e: "loop_head flip_env ?ds ?ds ?pop0 2 ?pop0 2" by (rule loop_head.entry)
  have r: "random_random flip_env 2 = (1 / 4, 3)" "random_random flip_env 3 = (1 / 5, 4)"
    "random_random flip_env 4 = (1 / 6, 5)" "random_random flip_env 5 = (1 / 7, 6)"
    by (simp_all add: flip_env_def test_env_def)
  note t = geometric_draws_closed_form[OF b]
  from t cr rc e obtain s wq' where
    q: "sample_source flip_env ?ds ?ds ?pop0 2 = (Inr s, wq')" by blast
  from t e q r have gb: "src_gb s = (if (1 / 5 :: real) < 0.5 then arcsin (1 / 4) * (180 / pi) * (- 1)
                          else arcsin (1 / 4) * (180 / pi))"
    and gl: "src_gl s = 1 / 6 * 360"
    and d: "0 \<le> pop_v_max ?pop0 * (1 / 7) * (3 / (4 * pi)) \<longrightarrow>
              src_dist s = Flt (root 3 (pop_v_max ?pop0 * (1 / 7) * (3 / (4 * pi))))"
    and rg: "random_contract flip_env \<longrightarrow>
                 - 90 \<le> src_gb s \<and> src_gb s \<le> 90 \<and> 0 \<le> src_gl s \<and> src_gl s < 360"
    by blast+
  from gb have gb': "src_gb s = - (arcsin (1 / 4) * (180 / pi))" by simp
  have "0 < arcsin (1 / 4 :: real)"
    using arcsin_less_arcsin[of 0 "1 / 4 :: real"] by simp
  then have "0 < arcsin (1 / 4 :: real) * (180 / pi)" by simp
  with gb' have neg: "src_gb s < 0" by simp
  from d have d': "src_dist s = Flt (root 3 ((5 / 2) ^ 3 * (1 / 7) * (3 / (4 * pi))))" by simp
  have "sampling_loop flip_env ?ds ?ds ?pop0 2 =
        sampling_loop flip_env ?ds ?ds (add_source ?pop0 s) wq'"
    by (rule sampling_loop_pass[OF _ q]) simp
  also have "\<dots> = (Inr (add_source ?pop0 s), wq')"
    by (rule sampling_loop_stop) (simp add: add_source_def)
  finally have g: "generate flip_env ?cfg 0 = (Inr (add_source ?pop0 s), wq')"
    unfolding generate_def b by simp
  have src: "pop_sources (add_source ?pop0 s) = [s]" by (simp add: add_source_def)
  have vm: "pop_v_max ?pop0 = (5 / 2) ^ 3" by simp
  from rg rc have lo: "- 90 \<le> src_gb s" by simp
  from gl have gl': "src_gl s = 60" by simp
  show ?thesis
    using rc cr fr r b e q vm gb' neg lo gl' d' g src by blast
qed

text \<open>
  Claim C5. For every generated source \<^verbatim>\<open>lum_bol\<close> lies within
  \<^verbatim>\<open>[lum_min, lum_max]\<close>, bounds included, when the power-law sampler keeps its
  contract; \<^verbatim>\<open>lum_min\<close> and \<^verbatim>\<open>lum_max\<close> are the first two luminosity parameters,
  and with \<^verbatim>\<open>lum_dist_pars = [L, L, anything]\<close> every source has \<^verbatim>\<open>lum_bol == L\<close>.
\<close>

theorem lum_bol_within_bounds:
  assumes "generate env cfg w = (Inr pop, w')" and "fresh_population_empty env"
    and "powerlaw_contract env"
  shows "pop_lum_min pop = item (lum_dist_pars cfg) 0 \<and>
         pop_lum_max pop = item (lum_dist_pars cfg) 1 \<and>
         (\<forall>s\<in>set (pop_sources pop).
            num_val (pop_lum_min pop) \<le> src_lum_bol s \<and>
            src_lum_bol s \<le> num_val (pop_lum_max pop) \<and>
            (\<forall>L x. lum_dist_pars cfg = PList [L, L, x] \<longrightarrow> src_lum_bol s = num_val L))"
proof (intro conjI ballI)
  show lo: "pop_lum_min pop = item (lum_dist_pars cfg) 0" by (rule generate_Inr_settings(4)[OF assms(1)])
  show hi: "pop_lum_max pop = item (lum_dist_pars cfg) 1" by (rule generate_Inr_settings(5)[OF assms(1)])
  fix s assume "s \<in> set (pop_sources pop)"
  with generate_Inr_sources[OF assms(1,2)] obtain ds zs pop0 wq wq'
    where q: "sample_source env ds zs pop0 wq = (Inr s, wq')"
      and p: "pop = pop0\<lparr>pop_n_srcs := pop_n_srcs pop, pop_sources := pop_sources pop\<rparr>"
    by blast
  from arg_cong[OF p, where f = pop_lum_min] have l0: "pop_lum_min pop0 = pop_lum_min pop" by simp
  from arg_cong[OF p, where f = pop_lum_max] have h0: "pop_lum_max pop0 = pop_lum_max pop" by simp
  obtain u1 w1 where r1: "random_random env wq = (u1, w1)" by (cases "random_random env wq")
  obtain u2 w2 where r2: "random_random env w1 = (u2, w2)" by (cases "random_random env w1")
  obtain u3 w3 where r3: "random_random env w2 = (u3, w3)" by (cases "random_random env w2")
  obtain u4 w4 where r4: "random_random env w3 = (u4, w4)" by (cases "random_random env w3")
  from sample_source_Inr(7)[OF q r1 r2 r3 r4] obtain w9 where
    "powerlaw env (pop_lum_min pop) (pop_lum_max pop) (pop_lum_pow pop0) w9 = (Inr (src_lum_bol s), wq')"
    unfolding l0 h0 by blast
  with assms(3) show b1: "num_val (pop_lum_min pop) \<le> src_lum_bol s"
    and b2: "src_lum_bol s \<le> num_val (pop_lum_max pop)"
    unfolding powerlaw_contract_def by blast+
  show "\<forall>L x. lum_dist_pars cfg = PList [L, L, x] \<longrightarrow> src_lum_bol s = num_val L"
  proof (intro allI impI)
    fix L x assume "lum_dist_pars cfg = PList [L, L, x]"
    then have "pop_lum_min pop = L" "pop_lum_max pop = L"
      using lo hi by (simp_all add: item_def)
    with b1 b2 show "src_lum_bol s = num_val L" by simp
  qed
qed

theorem lum_bol_within_bounds_witness:
  "fresh_population_empty test_env \<and> powerlaw_contract test_env \<and>
   (\<exists>pop w'.
      generate test_env ((default_config (PInt 2))\<lparr>lum_dist_pars := PList [PInt 7, PInt 7, PFloat 0.5]\<rparr>) 0
        = (Inr pop, w') \<and>
      length (pop_sources pop) = 2 \<and> pop_lum_min pop = PInt 7 \<and> pop_lum_max pop = PInt 7 \<and>
      list_all (\<lambda>s. 7 \<le> src_lum_bol s \<and> src_lum_bol s \<le> 7 \<and> src_lum_bol s = 7) (pop_sources pop))"
proof -
  let ?cfg = "(default_config (PInt 2))\<lparr>lum_dist_pars := PList [PInt 7, PInt 7, PFloat 0.5]\<rparr>"
  have v: "valid_config ?cfg" by (simp add: valid_config_def default_config_def)
  have c: "collaborators_return test_env ?cfg"
    by (simp add: collaborators_return_def test_env_def default_config_def item_def)
  from generate_returns[OF v c random_contract_test_env, of 0]
  obtain pop w' where g: "generate test_env ?cfg 0 = (Inr pop, w')"
    using returnsE by blast
  from generate_Inr_count(3)[OF g fresh_test_env] have n: "length (pop_sources pop) = 2"
    by (simp add: default_config_def)
  note t = lum_bol_within_bounds[OF g fresh_test_env powerlaw_contract_test_env]
  have i: "item (lum_dist_pars ?cfg) 0 = PInt 7" "item (lum_dist_pars ?cfg) 1 = PInt 7"
    by (simp_all add: item_def)
  from t i have lo: "pop_lum_min pop = PInt 7" and hi: "pop_lum_max pop = PInt 7" by simp_all
  have "7 \<le> src_lum_bol s \<and> src_lum_bol s \<le> 7 \<and> src_lum_bol s = 7"
    if "s \<in> set (pop_sources pop)" for s
  proof -
    from t that have "num_val (pop_lum_min pop) \<le> src_lum_bol s"
      "src_lum_bol s \<le> num_val (pop_lum_max pop)"
      "\<forall>L x. lum_dist_pars ?cfg = PList [L, L, x] \<longrightarrow> src_lum_bol s = num_val L"
      by blast+
    then show ?thesis using lo hi by simp
  qed
  with g n lo hi fresh_test_env powerlaw_contract_test_env show ?thesis
    by (auto simp: list_all_iff)
qed

text \<open>
  Claim C6. Every generated source has the spectral index \<open>-1.4\<close>. Two runs that differ
  only in \<^verbatim>\<open>si_pars\<close> (both valid), started with the same collaborators in the same
  hidden state, end alike: the same exception, or populations with the same sources, hence
  the same \<^verbatim>\<open>si\<close> everywhere, which differ only in the stored \<^verbatim>\<open>si_mean\<close> and
  \<^verbatim>\<open>si_sigma\<close>.
\<close>

theorem si_pars_do_not_influence_sources:
  assumes "valid_config cfg" and "number_list 2 sp"
  shows "(\<forall>e w'. generate env cfg w = (Inl e, w') \<longrightarrow>
            generate env (cfg\<lparr>si_pars := sp\<rparr>) w = (Inl e, w'))
       \<and> (\<forall>pop w'. generate env cfg w = (Inr pop, w') \<longrightarrow>
            generate env (cfg\<lparr>si_pars := sp\<rparr>) w =
              (Inr (pop\<lparr>pop_si_mean := item sp 0, pop_si_sigma := item sp 1\<rparr>), w') \<and>
            pop_si_mean pop = item (si_pars cfg) 0 \<and>
            pop_si_sigma pop = item (si_pars cfg) 1 \<and>
            (fresh_population_empty env \<longrightarrow> (\<forall>s\<in>set (pop_sources pop). src_si s = - 1.4)))"
proof (intro conjI allI impI ballI)
  fix e w' assume "generate env cfg w = (Inl e, w')"
  then show "generate env (cfg\<lparr>si_pars := sp\<rparr>) w = (Inl e, w')"
    by (simp add: generate_si_pars[OF assms])
next
  fix pop w' assume g: "generate env cfg w = (Inr pop, w')"
  then show "generate env (cfg\<lparr>si_pars := sp\<rparr>) w =
              (Inr (pop\<lparr>pop_si_mean := item sp 0, pop_si_sigma := item sp 1\<rparr>), w')"
    by (simp add: generate_si_pars[OF assms])
  show "pop_si_mean pop = item (si_pars cfg) 0" by (rule generate_Inr_settings(6)[OF g])
  show "pop_si_sigma pop = item (si_pars cfg) 1" by (rule generate_Inr_settings(7)[OF g])
  fix s assume f: "fresh_population_empty env" and "s \<in> set (pop_sources pop)"
  with generate_Inr_sources[OF g f] obtain ds zs pop0 wq wq'
    where q: "sample_source env ds zs pop0 wq = (Inr s, wq')" by blast
  obtain u1 w1 where r1: "random_random env wq = (u1, w1)" by (cases "random_random env wq")
  obtain u2 w2 where r2: "random_random env w1 = (u2, w2)" by (cases "random_random env w1")
  obtain u3 w3 where r3: "random_random env w2 = (u3, w3)" by (cases "random_random env w2")
  obtain u4 w4 where r4: "random_random env w3 = (u4, w4)" by (cases "random_random env w3")
  from sample_source_Inr(6)[OF q r1 r2 r3 r4] show "src_si s = - 1.4" .
qed

theorem si_pars_do_not_influence_sources_witness:
  "valid_config (default_config (PInt 2)) \<and> number_list 2 (PList [PFloat (- 3), PInt 0]) \<and>
   fresh_population_empty test_env \<and>
   (\<exists>pop pop2 w'.
      generate test_env (default_config (PInt 2)) 0 = (Inr pop, w') \<and>
      generate test_env ((default_config (PInt 2))\<lparr>si_pars := PList [PFloat (- 3), PInt 0]\<rparr>) 0
        = (Inr pop2, w') \<and>
      pop_sources pop2 = pop_sources pop \<and> length (pop_sources pop) = 2 \<and>
      pop_si_mean pop = PInt 1 \<and> pop_si_mean pop2 = PFloat (- 3) \<and>
      list_all (\<lambda>s. src_si s = - 1.4) (pop_sources pop))"
proof -
  let ?cfg = "default_config (PInt 2)" and ?sp = "PList [PFloat (- 3), PInt 0]"
  have v: "valid_config ?cfg" by (simp add: valid_default)
  have n: "number_list 2 ?sp" by simp
  from test_env_run[of 2] obtain pop w' where
    g: "generate test_env ?cfg 0 = (Inr pop, w')"
    and l: "int (length (pop_sources pop)) = 2" by auto
  from si_pars_do_not_influence_sources[OF v n, of test_env 0] g fresh_test_env
  have g2: "generate test_env (?cfg\<lparr>si_pars := ?sp\<rparr>) 0 =
              (Inr (pop\<lparr>pop_si_mean := item ?sp 0, pop_si_sigma := item ?sp 1\<rparr>), w')"
    and m: "pop_si_mean pop = item (si_pars ?cfg) 0"
    and a: "\<forall>s\<in>set (pop_sources pop). src_si s = - 1.4"
    by blast+
  have "item ?sp 0 = PFloat (- 3)" "item (si_pars ?cfg) 0 = PInt 1"
    by (simp_all add: item_def default_config_def)
  with v n g g2 m a l fresh_test_env show ?thesis
    by (auto simp: list_all_iff)
qed

text \<open>
  Claim C7. \<^verbatim>\<open>generate(n_gen=0, ...)\<close> raises a \<^verbatim>\<open>ValueError\<close> whose message names
  the number of generated sources, whatever the other arguments are;
  \<^verbatim>\<open>generate(n_gen=5, electron_model='bogus', ...)\<close>, with a boolean \<^verbatim>\<open>cosmology\<close> and
  three numeric \<^verbatim>\<open>cosmo_pars\<close>, raises a \<^verbatim>\<open>ValueError\<close> whose message names the
  electron model. Both leave the hidden state as it was: no collaborator has been called and
  no source sampled.
\<close>

theorem invalid_count_and_model_rejected:
  "(n_gen cfg = PInt 0 \<longrightarrow>
      generate env cfg w =
        (Inl (ValueError ''Please ensure the number of generated sources is > 0''), w))
   \<and> (n_gen cfg = PInt 5 \<and> is_bool (cosmology cfg) \<and> number_list 3 (cosmo_pars cfg) \<and>
       electron_model cfg = PStr ''bogus'' \<longrightarrow>
      generate env cfg w = (Inl (ValueError ''Unsupported electron model: bogus''), w))"
proof (intro conjI impI)
  assume "n_gen cfg = PInt 0"
  then show "generate env cfg w =
        (Inl (ValueError ''Please ensure the number of generated sources is > 0''), w)"
    by (simp add: generate_def before_loop_def check_input_def check_n_gen_def)
next
  assume a: "n_gen cfg = PInt 5 \<and> is_bool (cosmology cfg) \<and> number_list 3 (cosmo_pars cfg) \<and>
       electron_model cfg = PStr ''bogus''"
  then have "check_cosmology (cosmology cfg) = Inr ()" by (simp add: check_cosmology_iff)
  moreover have "check_pars (cosmo_pars cfg) 3
            ''Please ensure all cosmology parameters are floats or integeters''
            ''Please ensure there are three cosmology parameters'' = Inr ()"
    using a by (simp add: check_pars_iff)
  ultimately show "generate env cfg w = (Inl (ValueError ''Unsupported electron model: bogus''), w)"
    using a
    by (simp add: generate_def before_loop_def check_input_def check_n_gen_def
        check_electron_model_def format_arg_def)
qed

theorem invalid_count_and_model_rejected_witness:
  "generate test_env (default_config (PInt 0)) 0 =
     (Inl (ValueError ''Please ensure the number of generated sources is > 0''), 0) \<and>
   generate test_env ((default_config (PInt 5))\<lparr>electron_model := PStr ''bogus''\<rparr>) 0 =
     (Inl (ValueError ''Unsupported electron model: bogus''), 0)"
  using invalid_count_and_model_rejected[of "default_config (PInt 0)" test_env 0]
    invalid_count_and_model_rejected
      [of "(default_config (PInt 5))\<lparr>electron_model := PStr ''bogus''\<rparr>" test_env 0]
  by (simp add: default_config_def)



text \<open>
  Claim C9. When \<^verbatim>\<open>len(pop.sources) == pop.n_srcs\<close> holds for a freshly constructed
  population, it holds at every head of the sampling loop and for the population returned.
  A pass through the body that completes leads to the next head with exactly the sampled
  source appended and \<^verbatim>\<open>n_srcs\<close> one higher.
\<close>

theorem sources_length_equals_n_srcs:
  assumes "int (length (Population_sources env)) = Population_n_srcs env"
  shows "(\<forall>ds zs pop0 w0 p w1.
            before_loop env cfg w = (Inr (ds, zs, pop0), w0) \<longrightarrow>
            loop_head env ds zs pop0 w0 p w1 \<longrightarrow>
            int (length (pop_sources p)) = pop_n_srcs p \<and>
            (\<forall>src w2. pop_n_srcs p < pop_n_gen p \<longrightarrow>
               sample_source env ds zs p w1 = (Inr src, w2) \<longrightarrow>
               (\<exists>p'. loop_head env ds zs pop0 w0 p' w2 \<and>
                     sampling_loop env ds zs p w1 = sampling_loop env ds zs p' w2 \<and>
                     pop_sources p' = pop_sources p @ [src] \<and>
                     pop_n_srcs p' = pop_n_srcs p + 1)))
       \<and> (\<forall>pop w'. generate env cfg w = (Inr pop, w') \<longrightarrow>
            int (length (pop_sources pop)) = pop_n_srcs pop)"
proof (intro conjI allI impI)
  fix ds zs pop0 w0 p w1
  assume b: "before_loop env cfg w = (Inr (ds, zs, pop0), w0)"
    and l: "loop_head env ds zs pop0 w0 p w1"
  from loop_head_count[OF l] before_loop_Inr(3,4)[OF b] assms
  show "int (length (pop_sources p)) = pop_n_srcs p" by simp
  fix src w2
  assume lt: "pop_n_srcs p < pop_n_gen p" and s: "sample_source env ds zs p w1 = (Inr src, w2)"
  have "loop_head env ds zs pop0 w0 (add_source p src) w2" using l lt s by (rule loop_head.pass)
  moreover have "sampling_loop env ds zs p w1 = sampling_loop env ds zs (add_source p src) w2"
    using lt s by (simp add: sampling_loop.simps[of env ds zs p w1])
  moreover have "pop_sources (add_source p src) = pop_sources p @ [src]"
    "pop_n_srcs (add_source p src) = pop_n_srcs p + 1"
    by (simp_all add: add_source_def)
  ultimately show "\<exists>p'. loop_head env ds zs pop0 w0 p' w2 \<and>
                     sampling_loop env ds zs p w1 = sampling_loop env ds zs p' w2 \<and>
                     pop_sources p' = pop_sources p @ [src] \<and>
                     pop_n_srcs p' = pop_n_srcs p + 1"
    by blast
next
  fix pop w' assume g: "generate env cfg w = (Inr pop, w')"
  from generate_Inr[OF g] obtain ds zs pop0 w0 where
    b: "before_loop env cfg w = (Inr (ds, zs, pop0), w0)"
    and l: "loop_head env ds zs pop0 w0 pop w'"
    by blast
  from loop_head_count[OF l] before_loop_Inr(3,4)[OF b] assms
  show "int (length (pop_sources pop)) = pop_n_srcs pop" by simp
qed

theorem sources_length_equals_n_srcs_witness:
  "int (length (Population_sources test_env)) = Population_n_srcs test_env \<and>
   (\<exists>ds zs pop0 w0 src w2 p' pop w'.
      before_loop test_env (default_config (PInt 2)) 0 = (Inr (ds, zs, pop0), w0) \<and>
      loop_head test_env ds zs pop0 w0 pop0 w0 \<and>
      pop_n_srcs pop0 < pop_n_gen pop0 \<and>
      sample_source test_env ds zs pop0 w0 = (Inr src, w2) \<and>
      loop_head test_env ds zs pop0 w0 p' w2 \<and>
      pop_sources p' = [src] \<and> pop_n_srcs p' = 1 \<and>
      generate test_env (default_config (PInt 2)) 0 = (Inr pop, w') \<and>
      int (length (pop_sources pop)) = pop_n_srcs pop \<and> pop_n_srcs pop = 2)"
proof -
  let ?cfg = "default_config (PInt 2)"
  have a: "int (length (Population_sources test_env)) = Population_n_srcs test_env"
    by (simp add: test_env_def)
  note t = sources_length_equals_n_srcs[OF a, of ?cfg 0]
  from test_env_run[of 2] obtain pop w' where
    g: "generate test_env ?cfg 0 = (Inr pop, w')" by auto
  from generate_Inr[OF g] obtain ds zs pop0 w0 where
    b: "before_loop test_env ?cfg 0 = (Inr (ds, zs, pop0), w0)" by blast
  have e: "loop_head test_env ds zs pop0 w0 pop0 w0" by (rule loop_head.entry)
  have n0: "pop_n_srcs pop0 = 0" "pop_sources pop0 = []" "pop_n_gen pop0 = 2"
    using before_loop_Inr(2,3,4)[OF b] by (simp_all add: test_env_def default_config_def)
  from before_loop_sample_source_returns
    [OF b collaborators_return_test_env random_contract_test_env, of w0]
  obtain src w2 where s: "sample_source test_env ds zs pop0 w0 = (Inr src, w2)"
    using returnsE by blast
  from t b e s n0 obtain p' where p': "loop_head test_env ds zs pop0 w0 p' w2"
    "pop_sources p' = pop_sources pop0 @ [src]" "pop_n_srcs p' = pop_n_srcs pop0 + 1"
    by force
  from t g have "int (length (pop_sources pop)) = pop_n_srcs pop" by blast
  moreover from generate_Inr_count(2)[OF g fresh_test_env] have "pop_n_srcs pop = 2"
    by (simp add: default_config_def)
  ultimately show ?thesis using a b e s p' n0 g by auto
qed

text \<open>
  Claim C10. A falsy \<^verbatim>\<open>name\<close> (\<^verbatim>\<open>None\<close>, the empty string, \<^verbatim>\<open>0\<close>,
  \<^verbatim>\<open>False\<close>, an empty list) is replaced by \<^verbatim>\<open>'Initial'\<close> before its type is
  checked: the check of the name passes, the configuration is as valid as with a string name,
  the call returns when no collaborator raises and the uniform draws lie in \<open>[0, 1)\<close>,
  and every population returned is named
  \<^verbatim>\<open>'Initial'\<close>. The check of the name rejects exactly the names that are truthy and
  not strings.
\<close>

theorem falsy_name_becomes_Initial:
  "(falsy nm \<longrightarrow>
      check_name nm = Inr (PStr ''Initial'') \<and>
      (valid_config (cfg\<lparr>name := PStr ''some name''\<rparr>) \<longrightarrow>
         valid_config (cfg\<lparr>name := nm\<rparr>) \<and>
         (collaborators_return env (cfg\<lparr>name := nm\<rparr>) \<and> random_contract env \<longrightarrow>
            (\<exists>pop w'. generate env (cfg\<lparr>name := nm\<rparr>) w = (Inr pop, w'))) \<and>
         (\<forall>pop w'. generate env (cfg\<lparr>name := nm\<rparr>) w = (Inr pop, w') \<longrightarrow>
            pop_name pop = PStr ''Initial'')))
   \<and> ((\<exists>e. check_name nm = Inl e) \<longleftrightarrow> \<not> falsy nm \<and> \<not> is_str nm)"
proof (intro conjI impI allI)
  assume f: "falsy nm"
  then show "check_name nm = Inr (PStr ''Initial'')" by (simp add: check_name_valid)
  assume "valid_config (cfg\<lparr>name := PStr ''some name''\<rparr>)"
  with f show v: "valid_config (cfg\<lparr>name := nm\<rparr>)" by (simp add: valid_config_def)
  {
    assume "collaborators_return env (cfg\<lparr>name := nm\<rparr>) \<and> random_contract env"
    with v have "returns (generate env (cfg\<lparr>name := nm\<rparr>) w)" by (simp add: generate_returns)
    then show "\<exists>pop w'. generate env (cfg\<lparr>name := nm\<rparr>) w = (Inr pop, w')" by (rule returnsE)
  }
  fix pop w' assume "generate env (cfg\<lparr>name := nm\<rparr>) w = (Inr pop, w')"
  from generate_Inr_settings(2)[OF this] f show "pop_name pop = PStr ''Initial''" by simp
next
  show "(\<exists>e. check_name nm = Inl e) \<longleftrightarrow> \<not> falsy nm \<and> \<not> is_str nm"
    using check_name_valid[of nm] check_name_invalid[of nm] by auto
qed

theorem falsy_name_becomes_Initial_witness:
  "(\<exists>pop w'. generate test_env ((default_config (PInt 1))\<lparr>name := PNone\<rparr>) 0 = (Inr pop, w') \<and>
       pop_name pop = PStr ''Initial'') \<and>
   (\<exists>pop w'. generate test_env ((default_config (PInt 1))\<lparr>name := PStr []\<rparr>) 0 = (Inr pop, w') \<and>
       pop_name pop = PStr ''Initial'') \<and>
   (\<exists>pop w'. generate test_env ((default_config (PInt 1))\<lparr>name := PInt 0\<rparr>) 0 = (Inr pop, w') \<and>
       pop_name pop = PStr ''Initial'') \<and>
   (\<exists>pop w'. generate test_env ((default_config (PInt 1))\<lparr>name := PBool False\<rparr>) 0 = (Inr pop, w') \<and>
       pop_name pop = PStr ''Initial'') \<and>
   (\<exists>pop w'. generate test_env ((default_config (PInt 1))\<lparr>name := PList []\<rparr>) 0 = (Inr pop, w') \<and>
       pop_name pop = PStr ''Initial'') \<and>
   (\<exists>e. check_name (PInt 7) = Inl e) \<and> (\<exists>e. check_name (PList [PStr ''a'']) = Inl e) \<and>
   check_name (PStr ''a'') = Inr (PStr ''a'')"
proof -
  let ?cfg = "default_config (PInt 1)"
  have v: "valid_config (?cfg\<lparr>name := PStr ''some name''\<rparr>)"
    by (simp add: valid_config_def default_config_def)
  have c: "collaborators_return test_env (?cfg\<lparr>name := nm\<rparr>)" for nm
    by (simp add: collaborators_return_def test_env_def default_config_def item_def)
  have run: "\<exists>pop w'. generate test_env (?cfg\<lparr>name := nm\<rparr>) 0 = (Inr pop, w') \<and>
       pop_name pop = PStr ''Initial''" if "falsy nm" for nm
    using falsy_name_becomes_Initial[of nm ?cfg test_env 0] that v c[of nm]
      random_contract_test_env by blast
  have rej: "\<exists>e. check_name nm = Inl e" if "\<not> falsy nm" "\<not> is_str nm" for nm
    using falsy_name_becomes_Initial[of nm ?cfg test_env 0] that by blast
  have "check_name (PStr ''a'') = Inr (PStr ''a'')" by (simp add: check_name_def)
  with run[of PNone] run[of "PStr []"] run[of "PInt 0"] run[of "PBool False"] run[of "PList []"]
    rej[of "PInt 7"] rej[of "PList [PStr ''a'']"]
  show ?thesis by simp
qed

end
